theory Spec2Isabelle
  imports Main
begin

section \<open>The storefront script \<^verbatim>\<open>assets/js/main.js\<close>\<close>

text \<open>
  The script has three parts that carry checkable behaviour: the cart manager
  (\<^verbatim>\<open>CartManager\<close>), the fragment loader (\<^verbatim>\<open>ComponentLoader\<close>) and the
  path fixer (\<^verbatim>\<open>PathFixer\<close>). Each is embedded below as executable functions over
  explicit state. Values of the platform are idealised as follows.
  \<^item> A JavaScript number is an \<^typ>\<open>int\<close>: exact and unbounded. Fractions, \<^verbatim>\<open>NaN\<close>,
    the infinities and the rounding of doubles are outside the model.
  \<^item> A JavaScript string is a \<^typ>\<open>string\<close>, one \<^typ>\<open>char\<close> per code unit below 256.
  \<^item> Strict equality \<^verbatim>\<open>===\<close> on numbers and strings is equality of the model values.
\<close>

subsection \<open>JSON values and the platform's \<^verbatim>\<open>JSON.stringify\<close> / \<^verbatim>\<open>JSON.parse\<close>\<close>

datatype json =
    JNull
  | JBool bool
  | JNum int
  | JStr string
  | JArr "json list"
  | JObj "(string \<times> json) list"

text \<open>
  \<open>SyntaxError\<close> is the exception \<^verbatim>\<open>JSON.parse\<close> throws on text that is not JSON.
  \<open>OutOfModel\<close> is no behaviour of the program: the model returns it where it does not
  determine what the platform does (a number literal with a fraction or an exponent, a
  \<^verbatim>\<open>\u\<close> escape above 255, an object key that is an array index, a stored value that is
  not a list of line items), so that it never reports such an input as an error or a value.
\<close>

datatype error = SyntaxError | OutOfModel

definition dquote :: char where
  "dquote = CHR 0x22"

definition bslash :: char where
  "bslash = CHR 0x5C"

definition is_digit :: "char \<Rightarrow> bool" where
  "is_digit c = (48 \<le> (of_char c :: nat) \<and> (of_char c :: nat) \<le> 57)"

definition digit_char :: "nat \<Rightarrow> char" where
  "digit_char d = char_of (48 + d)"

text \<open>Decimal digits of a natural number, most significant first, no leading zero.\<close>

function digits_of :: "nat \<Rightarrow> string" where
  "digits_of n = (if n < 10 then [digit_char n] else digits_of (n div 10) @ [digit_char (n mod 10)])"
  by pat_completeness auto
termination
  by (relation "measure (\<lambda>n. n)") auto

declare digits_of.simps [simp del]

definition nat_of_digits :: "string \<Rightarrow> nat" where
  "nat_of_digits ds = foldl (\<lambda>a c. 10 * a + ((of_char c :: nat) - 48)) 0 ds"

text \<open>\<^verbatim>\<open>Number.prototype.toString\<close> on an integer.\<close>

definition show_int :: "int \<Rightarrow> string" where
  "show_int i = (if i < 0 then CHR ''-'' # digits_of (nat (- i)) else digits_of (nat i))"

definition hex_char :: "nat \<Rightarrow> char" where
  "hex_char d = (if d < 10 then char_of (48 + d) else char_of (87 + d))"

definition hex_val :: "char \<Rightarrow> nat option" where
  "hex_val c =
     (let n = (of_char c :: nat) in
      if 48 \<le> n \<and> n \<le> 57 then Some (n - 48)
      else if 97 \<le> n \<and> n \<le> 102 then Some (n - 87)
      else if 65 \<le> n \<and> n \<le> 70 then Some (n - 55)
      else None)"

text \<open>
  \<^verbatim>\<open>QuoteJSONString\<close>: the quote and the backslash are escaped, the control characters
  get their short escape or \<^verbatim>\<open>\u00xx\<close>, every other code unit is copied.
\<close>

definition escape_char :: "char \<Rightarrow> string" where
  "escape_char c =
     (if c = dquote then [bslash, dquote]
      else if c = bslash then [bslash, bslash]
      else if c = CHR 0x08 then [bslash, CHR ''b'']
      else if c = CHR 0x0C then [bslash, CHR ''f'']
      else if c = CHR 0x0A then [bslash, CHR ''n'']
      else if c = CHR 0x0D then [bslash, CHR ''r'']
      else if c = CHR 0x09 then [bslash, CHR ''t'']
      else if (of_char c :: nat) < 32
        then [bslash, CHR ''u'', CHR ''0'', CHR ''0'',
              hex_char ((of_char c :: nat) div 16), hex_char ((of_char c :: nat) mod 16)]
      else [c])"

definition quote :: "string \<Rightarrow> string" where
  "quote s = dquote # concat (map escape_char s) @ [dquote]"

fun stringify :: "json \<Rightarrow> string"
  and stringify_elements :: "json list \<Rightarrow> string"
  and stringify_members :: "(string \<times> json) list \<Rightarrow> string"
where
  "stringify JNull = ''null''"
| "stringify (JBool b) = (if b then ''true'' else ''false'')"
| "stringify (JNum n) = show_int n"
| "stringify (JStr s) = quote s"
| "stringify (JArr vs) = CHR ''['' # stringify_elements vs @ '']''"
| "stringify (JObj ms) = CHR ''{'' # stringify_members ms @ ''}''"
| "stringify_elements [] = []"
| "stringify_elements (v # vs) =
     stringify v @ (if vs = [] then [] else CHR '','' # stringify_elements vs)"
| "stringify_members [] = []"
| "stringify_members (m # ms) =
     quote (fst m) @ CHR '':'' # stringify (snd m)
       @ (if ms = [] then [] else CHR '','' # stringify_members ms)"

definition JSON_stringify :: "json \<Rightarrow> string" where
  "JSON_stringify v = stringify v"

definition is_ws :: "char \<Rightarrow> bool" where
  "is_ws c = (c = CHR 0x20 \<or> c = CHR 0x09 \<or> c = CHR 0x0A \<or> c = CHR 0x0D)"

definition skip_ws :: "string \<Rightarrow> string" where
  "skip_ws s = dropWhile is_ws s"

definition simple_escape :: "char \<Rightarrow> char option" where
  "simple_escape e =
     (if e = dquote then Some dquote
      else if e = bslash then Some bslash
      else if e = CHR ''/'' then Some CHR ''/''
      else if e = CHR ''b'' then Some (CHR 0x08)
      else if e = CHR ''f'' then Some (CHR 0x0C)
      else if e = CHR ''n'' then Some (CHR 0x0A)
      else if e = CHR ''r'' then Some (CHR 0x0D)
      else if e = CHR ''t'' then Some (CHR 0x09)
      else None)"

definition hex4 :: "char \<Rightarrow> char \<Rightarrow> char \<Rightarrow> char \<Rightarrow> nat option" where
  "hex4 a b c d =
     (case (hex_val a, hex_val b, hex_val c, hex_val d) of
        (Some w, Some x, Some y, Some z) \<Rightarrow> Some (4096 * w + 256 * x + 16 * y + z)
      | _ \<Rightarrow> None)"

definition cons_char :: "char \<Rightarrow> error + string \<times> string \<Rightarrow> error + string \<times> string" where
  "cons_char c r = (case r of Inl e \<Rightarrow> Inl e | Inr (s, rest) \<Rightarrow> Inr (c # s, rest))"

text \<open>The characters of a string literal after its opening quote, up to the closing one.\<close>

fun parse_chars :: "string \<Rightarrow> error + string \<times> string" where
  "parse_chars [] = Inl SyntaxError"
| "parse_chars (c # cs) =
     (if c = dquote then Inr ([], cs)
      else if c = bslash then
        (case cs of
           [] \<Rightarrow> Inl SyntaxError
         | e # cs1 \<Rightarrow>
             if e = CHR ''u'' then
               (case cs1 of
                  h1 # h2 # h3 # h4 # cs2 \<Rightarrow>
                    (case hex4 h1 h2 h3 h4 of
                       None \<Rightarrow> Inl SyntaxError
                     | Some n \<Rightarrow>
                         if n < 256 then cons_char (char_of n) (parse_chars cs2)
                         else Inl OutOfModel)
                | _ \<Rightarrow> Inl SyntaxError)
             else
               (case simple_escape e of
                  None \<Rightarrow> Inl SyntaxError
                | Some d \<Rightarrow> cons_char d (parse_chars cs1)))
      else if (of_char c :: nat) < 32 then Inl SyntaxError
      else cons_char c (parse_chars cs))"

definition starts_with_any :: "string \<Rightarrow> string \<Rightarrow> bool" where
  "starts_with_any cs s = (case s of [] \<Rightarrow> False | c # _ \<Rightarrow> c \<in> set cs)"

text \<open>
  A number token: an optional minus sign and the digits of an integer, with no leading
  zero. A fraction or an exponent after it is a number the model does not represent.
\<close>

definition parse_number :: "string \<Rightarrow> error + json \<times> string" where
  "parse_number s =
     (let neg = starts_with_any ''-'' s;
          t = (if neg then tl s else s);
          ds = takeWhile is_digit t;
          rest = dropWhile is_digit t
      in if ds = [] then Inl SyntaxError
         else if hd ds = CHR ''0'' \<and> 1 < length ds then Inl SyntaxError
         else if starts_with_any ''.eE'' rest then Inl OutOfModel
         else Inr (JNum (if neg then - int (nat_of_digits ds) else int (nat_of_digits ds)), rest))"

definition parse_literal :: "string \<Rightarrow> error + json \<times> string" where
  "parse_literal s =
     (if take 4 s = ''null'' then Inr (JNull, drop 4 s)
      else if take 4 s = ''true'' then Inr (JBool True, drop 4 s)
      else if take 5 s = ''false'' then Inr (JBool False, drop 5 s)
      else Inl SyntaxError)"

text \<open>
  Property creation while an object literal is read: a repeated key overwrites the value
  at the key's first position. Keys that are array indices are ordered before the others
  by the platform; the model does not follow that and gives them up.
\<close>

fun put_member :: "string \<Rightarrow> json \<Rightarrow> (string \<times> json) list \<Rightarrow> (string \<times> json) list" where
  "put_member k v [] = [(k, v)]"
| "put_member k v (m # ms) = (if fst m = k then (k, v) # ms else m # put_member k v ms)"

definition build_object :: "(string \<times> json) list \<Rightarrow> (string \<times> json) list" where
  "build_object ms = foldl (\<lambda>acc m. put_member (fst m) (snd m) acc) [] ms"

definition is_index_key :: "string \<Rightarrow> bool" where
  "is_index_key k = (k \<noteq> [] \<and> list_all is_digit k)"

text \<open>
  The recursive descent over values. The fuel bounds the number of nested calls; the
  entry point gives two units of fuel for every character of the text, and two more.
\<close>

fun parse_value :: "nat \<Rightarrow> string \<Rightarrow> error + json \<times> string"
  and parse_elements :: "nat \<Rightarrow> string \<Rightarrow> error + json list \<times> string"
  and parse_members :: "nat \<Rightarrow> string \<Rightarrow> error + (string \<times> json) list \<times> string"
where
  "parse_value 0 s = Inl OutOfModel"
| "parse_value (Suc n) s =
     (case skip_ws s of
        [] \<Rightarrow> Inl SyntaxError
      | c # cs \<Rightarrow>
          if c = CHR ''['' then
            (if starts_with_any '']'' (skip_ws cs) then Inr (JArr [], tl (skip_ws cs))
             else (case parse_elements n cs of
                     Inl e \<Rightarrow> Inl e
                   | Inr (vs, rest) \<Rightarrow> Inr (JArr vs, rest)))
          else if c = CHR ''{'' then
            (if starts_with_any ''}'' (skip_ws cs) then Inr (JObj [], tl (skip_ws cs))
             else (case parse_members n cs of
                     Inl e \<Rightarrow> Inl e
                   | Inr (ms, rest) \<Rightarrow>
                       if list_ex (\<lambda>m. is_index_key (fst m)) ms then Inl OutOfModel
                       else Inr (JObj (build_object ms), rest)))
          else if c = dquote then
            (case parse_chars cs of
               Inl e \<Rightarrow> Inl e
             | Inr (str, rest) \<Rightarrow> Inr (JStr str, rest))
          else if c = CHR ''-'' \<or> is_digit c then parse_number (c # cs)
          else parse_literal (c # cs))"
| "parse_elements 0 s = Inl OutOfModel"
| "parse_elements (Suc n) s =
     (case parse_value n s of
        Inl e \<Rightarrow> Inl e
      | Inr (v, rest) \<Rightarrow>
          (case skip_ws rest of
             [] \<Rightarrow> Inl SyntaxError
           | c # rest1 \<Rightarrow>
               if c = CHR '','' then
                 (case parse_elements n rest1 of
                    Inl e \<Rightarrow> Inl e
                  | Inr (vs, rest2) \<Rightarrow> Inr (v # vs, rest2))
               else if c = CHR '']'' then Inr ([v], rest1)
               else Inl SyntaxError))"
| "parse_members 0 s = Inl OutOfModel"
| "parse_members (Suc n) s =
     (case skip_ws s of
        [] \<Rightarrow> Inl SyntaxError
      | q # s1 \<Rightarrow>
          if q \<noteq> dquote then Inl SyntaxError
          else
            (case parse_chars s1 of
               Inl e \<Rightarrow> Inl e
             | Inr (k, s2) \<Rightarrow>
                 (case skip_ws s2 of
                    [] \<Rightarrow> Inl SyntaxError
                  | col # s3 \<Rightarrow>
                      if col \<noteq> CHR '':'' then Inl SyntaxError
                      else
                        (case parse_value n s3 of
                           Inl e \<Rightarrow> Inl e
                         | Inr (v, rest) \<Rightarrow>
                             (case skip_ws rest of
                                [] \<Rightarrow> Inl SyntaxError
                              | c # rest1 \<Rightarrow>
                                  if c = CHR '','' then
                                    (case parse_members n rest1 of
                                       Inl e \<Rightarrow> Inl e
                                     | Inr (ms, rest2) \<Rightarrow> Inr ((k, v) # ms, rest2))
                                  else if c = CHR ''}'' then Inr ([(k, v)], rest1)
                                  else Inl SyntaxError)))))"

definition JSON_parse :: "string \<Rightarrow> error + json" where
  "JSON_parse s =
     (case parse_value (2 * length s + 2) s of
        Inl e \<Rightarrow> Inl e
      | Inr (v, rest) \<Rightarrow> if skip_ws rest = [] then Inr v else Inl SyntaxError)"




subsection \<open>The cart manager (\<^verbatim>\<open>class CartManager\<close>)\<close>

text \<open>
  A product identifier is a number or a string; \<^verbatim>\<open>item.id === product.id\<close> is equality
  of identifiers, so the number 1 and the string \<^verbatim>\<open>"1"\<close> are different identifiers.
\<close>

datatype ident = IdNum int | IdStr string

text \<open>
  A line item carries the fields the cart reads. A product is what \<^verbatim>\<open>addProduct\<close>
  receives: its \<^verbatim>\<open>quantity\<close> may be absent, as it is for every product of the catalogue.
  The other display fields that the spread \<^verbatim>\<open>{...product}\<close> copies (description, badge)
  are read by no cart operation and are not tracked.
\<close>

record item =
  item_id :: ident
  name :: string
  price :: int
  quantity :: int

record product =
  prod_id :: ident
  prod_name :: string
  prod_price :: int
  prod_quantity :: "int option"

text \<open>
  The manager's \<^verbatim>\<open>cart\<close> array together with what its methods write: the browser's
  \<^verbatim>\<open>localStorage\<close>, and the two page elements \<^verbatim>\<open>#cartCount\<close> (text and
  \<^verbatim>\<open>style.display\<close>) and \<^verbatim>\<open>#cartTotal\<close> (text), each \<open>None\<close> when the page has no such
  element. The rendered rows of \<^verbatim>\<open>#cartItems\<close> and the transient notification of
  \<^verbatim>\<open>showAddToCartFeedback\<close> are markup only and are not tracked.
\<close>

record store =
  cart :: "item list"
  localStorage :: "string \<rightharpoonup> string"
  cartCount :: "(string \<times> string) option"
  cartTotal :: "string option"

definition storage_key :: string where
  "storage_key = ''sportpro-cart''"

fun ident_to_json :: "ident \<Rightarrow> json" where
  "ident_to_json (IdNum n) = JNum n"
| "ident_to_json (IdStr s) = JStr s"

text \<open>The line item as the object the program holds, and the cart as the array of them.\<close>

definition item_to_json :: "item \<Rightarrow> json" where
  "item_to_json it =
     JObj [(''id'', ident_to_json (item_id it)), (''name'', JStr (name it)),
           (''price'', JNum (price it)), (''quantity'', JNum (quantity it))]"

definition cart_to_json :: "item list \<Rightarrow> json" where
  "cart_to_json c = JArr (map item_to_json c)"

fun as_ident :: "json \<Rightarrow> ident option" where
  "as_ident (JNum n) = Some (IdNum n)"
| "as_ident (JStr s) = Some (IdStr s)"
| "as_ident _ = None"

text \<open>
  The reverse reading of a parsed value as a list of line items. The program does no such
  step (it uses the parsed objects as they are); the model needs it to type the cart.
\<close>

fun as_item :: "json \<Rightarrow> item option" where
  "as_item (JObj ms) =
     (case (map_of ms ''id'', map_of ms ''name'', map_of ms ''price'', map_of ms ''quantity'') of
        (Some i, Some (JStr n), Some (JNum p), Some (JNum q)) \<Rightarrow>
          (case as_ident i of
             Some ident \<Rightarrow> Some \<lparr>item_id = ident, name = n, price = p, quantity = q\<rparr>
           | None \<Rightarrow> None)
      | _ \<Rightarrow> None)"
| "as_item _ = None"

fun as_cart :: "json \<Rightarrow> item list option" where
  "as_cart (JArr vs) = those (map as_item vs)"
| "as_cart _ = None"

text \<open>\<^verbatim>\<open>ToBoolean\<close>, as the operator \<^verbatim>\<open>||\<close> applies it.\<close>

fun truthy :: "json \<Rightarrow> bool" where
  "truthy JNull = False"
| "truthy (JBool b) = b"
| "truthy (JNum n) = (n \<noteq> 0)"
| "truthy (JStr s) = (s \<noteq> [])"
| "truthy (JArr vs) = True"
| "truthy (JObj ms) = True"

text \<open>
  \<^verbatim>\<open>this.cart = JSON.parse(localStorage.getItem('sportpro-cart')) || []\<close>.
  \<^verbatim>\<open>getItem\<close> gives \<^verbatim>\<open>null\<close> for a missing key, and \<^verbatim>\<open>JSON.parse\<close> reads its argument
  as the string \<^verbatim>\<open>"null"\<close> then. The constructor has no handler: an exception of
  \<^verbatim>\<open>JSON.parse\<close> leaves it.
\<close>

definition CartManager_new :: "(string \<rightharpoonup> string) \<Rightarrow> error + item list" where
  "CartManager_new storage =
     (case JSON_parse (case storage storage_key of None \<Rightarrow> ''null'' | Some text \<Rightarrow> text) of
        Inl e \<Rightarrow> Inl e
      | Inr v \<Rightarrow>
          if truthy v then (case as_cart v of Some c \<Rightarrow> Inr c | None \<Rightarrow> Inl OutOfModel)
          else Inr [])"

text \<open>\<^verbatim>\<open>localStorage.setItem('sportpro-cart', JSON.stringify(this.cart))\<close>\<close>

definition saveCart :: "store \<Rightarrow> store" where
  "saveCart s =
     s\<lparr>localStorage := (localStorage s)(storage_key \<mapsto> JSON_stringify (cart_to_json (cart s)))\<rparr>"

text \<open>The two \<^verbatim>\<open>reduce\<close> calls of \<^verbatim>\<open>updateCartUI\<close>.\<close>

definition totalItems :: "item list \<Rightarrow> int" where
  "totalItems c = foldl (\<lambda>sum it. sum + quantity it) 0 c"

definition totalPrice :: "item list \<Rightarrow> int" where
  "totalPrice c = foldl (\<lambda>sum it. sum + price it * quantity it) 0 c"

text \<open>\<^verbatim>\<open>toFixed(2)\<close> on an integer.\<close>

definition toFixed2 :: "int \<Rightarrow> string" where
  "toFixed2 n = show_int n @ ''.00''"

definition updateCartUI :: "store \<Rightarrow> store" where
  "updateCartUI s =
     s\<lparr>cartCount :=
         (case cartCount s of
            None \<Rightarrow> None
          | Some _ \<Rightarrow>
              Some (show_int (totalItems (cart s)),
                    if 0 < totalItems (cart s) then ''flex'' else ''none'')),
       cartTotal :=
         (case cartTotal s of
            None \<Rightarrow> None
          | Some _ \<Rightarrow> Some (toFixed2 (totalPrice (cart s))))\<rparr>"

text \<open>
  \<^verbatim>\<open>find\<close> gives the first matching object of the array, and an assignment to one of its
  fields changes the array at that position.
\<close>

fun update_first :: "('a \<Rightarrow> bool) \<Rightarrow> ('a \<Rightarrow> 'a) \<Rightarrow> 'a list \<Rightarrow> 'a list" where
  "update_first P f [] = []"
| "update_first P f (x # xs) = (if P x then f x # xs else x # update_first P f xs)"

text \<open>\<^verbatim>\<open>product.quantity || 1\<close>: an absent quantity and the quantity 0 are falsy.\<close>

definition added_quantity :: "product \<Rightarrow> int" where
  "added_quantity product =
     (case prod_quantity product of None \<Rightarrow> 1 | Some q \<Rightarrow> if q = 0 then 1 else q)"

definition addProduct :: "product \<Rightarrow> store \<Rightarrow> store" where
  "addProduct product s =
     (let c =
        (case find (\<lambda>it. item_id it = prod_id product) (cart s) of
           Some existingItem \<Rightarrow>
             update_first (\<lambda>it. item_id it = prod_id product)
               (\<lambda>it. it\<lparr>quantity := quantity it + added_quantity product\<rparr>) (cart s)
         | None \<Rightarrow>
             cart s @ [\<lparr>item_id = prod_id product, name = prod_name product,
                        price = prod_price product, quantity = added_quantity product\<rparr>])
      in updateCartUI (saveCart (s\<lparr>cart := c\<rparr>)))"

definition removeProduct :: "ident \<Rightarrow> store \<Rightarrow> store" where
  "removeProduct productId s =
     updateCartUI (saveCart (s\<lparr>cart := filter (\<lambda>it. item_id it \<noteq> productId) (cart s)\<rparr>))"

definition updateQuantity :: "ident \<Rightarrow> int \<Rightarrow> store \<Rightarrow> store" where
  "updateQuantity productId q s =
     (case find (\<lambda>it. item_id it = productId) (cart s) of
        None \<Rightarrow> s
      | Some _ \<Rightarrow>
          (let s1 = s\<lparr>cart := update_first (\<lambda>it. item_id it = productId)
                                 (\<lambda>it. it\<lparr>quantity := q\<rparr>) (cart s)\<rparr>
           in if q \<le> 0 then removeProduct productId s1
              else updateCartUI (saveCart s1)))"

text \<open>The invariant of the data model: one line item per identifier, quantities from 1.\<close>

definition cart_inv :: "item list \<Rightarrow> bool" where
  "cart_inv c = (distinct (map item_id c) \<and> list_all (\<lambda>it. 1 \<le> quantity it) c)"

subsection \<open>The document, and fetching a fragment\<close>

text \<open>
  A document is a forest of nodes in document order. Assigning a string to \<^verbatim>\<open>innerHTML\<close> or
  \<^verbatim>\<open>outerHTML\<close> makes the platform parse it; the model keeps what was assigned as one
  \<open>Markup\<close> node and does not look inside it. The two template literals of
  \<^verbatim>\<open>showComponentFallback\<close> (the \<^verbatim>\<open><header class="fallback-header" ...>\<close> block and the
  \<^verbatim>\<open><footer class="fallback-footer" ...>\<close> block) are kept as the symbols \<open>FallbackHeader\<close>
  and \<open>FallbackFooter\<close>: only their identity matters. \<open>Inherited k\<close> is the text that the
  member \<open>k\<close> which every object inherits (a function, or the prototype itself) gives when
  it is assigned to \<^verbatim>\<open>innerHTML\<close>.
\<close>

datatype markup = Fetched string | FallbackHeader | FallbackFooter | Inherited string

datatype node =
    Element string "(string \<times> string) list" "node list"
  | Text string
  | Markup markup

text \<open>
  What \<^verbatim>\<open>await fetch(...)\<close> followed by \<^verbatim>\<open>await response.text()\<close> can give: the fetch is
  rejected, or it answers with a status and a body, where the body \<open>None\<close> stands for a
  body that cannot be read.
\<close>

datatype fetch_outcome = Rejected | Responded nat "string option"

text \<open>\<^verbatim>\<open>response.ok\<close>\<close>

definition ok :: "nat \<Rightarrow> bool" where
  "ok status = (200 \<le> status \<and> status \<le> 299)"

text \<open>The ways the \<^verbatim>\<open>try\<close> block of a loader throws before it touches the document.\<close>

definition fetch_failed :: "fetch_outcome \<Rightarrow> bool" where
  "fetch_failed outcome =
     (case outcome of Rejected \<Rightarrow> True | Responded status body \<Rightarrow> \<not> ok status \<or> body = None)"

datatype console_entry = ConsoleLog string | ConsoleWarn string | ConsoleError string

definition componentsPath :: string where
  "componentsPath = ''components/''"

definition assetsPath :: string where
  "assetsPath = ''assets/''"

definition getAttribute :: "string \<Rightarrow> (string \<times> string) list \<Rightarrow> string option" where
  "getAttribute a attrs = map_of attrs a"

fun setAttribute :: "string \<Rightarrow> string \<Rightarrow> (string \<times> string) list \<Rightarrow> (string \<times> string) list" where
  "setAttribute a v [] = [(a, v)]"
| "setAttribute a v (p # ps) = (if fst p = a then (a, v) # ps else p # setAttribute a v ps)"

text \<open>
  \<^verbatim>\<open>document.getElementById\<close>: the first element, in document order, with that id. The
  empty string is the id of no element.
\<close>

fun find_in_node :: "string \<Rightarrow> node \<Rightarrow> node option"
  and getElementById :: "string \<Rightarrow> node list \<Rightarrow> node option"
where
  "find_in_node i (Element tg attrs cs) =
     (if i \<noteq> [] \<and> getAttribute ''id'' attrs = Some i then Some (Element tg attrs cs)
      else getElementById i cs)"
| "find_in_node i (Text t) = None"
| "find_in_node i (Markup m) = None"
| "getElementById i [] = None"
| "getElementById i (n # ns) =
     (case find_in_node i n of Some e \<Rightarrow> Some e | None \<Rightarrow> getElementById i ns)"

text \<open>
  A write through the reference that \<^verbatim>\<open>getElementById\<close> returned: the first element with
  that id is replaced by \<open>f\<close> of it, and a document without such an element is unchanged.
\<close>

fun update_in_node :: "string \<Rightarrow> (node \<Rightarrow> node) \<Rightarrow> node \<Rightarrow> node"
  and update_element :: "string \<Rightarrow> (node \<Rightarrow> node) \<Rightarrow> node list \<Rightarrow> node list"
where
  "update_in_node i f (Element tg attrs cs) =
     (if i \<noteq> [] \<and> getAttribute ''id'' attrs = Some i then f (Element tg attrs cs)
      else Element tg attrs (update_element i f cs))"
| "update_in_node i f (Text t) = Text t"
| "update_in_node i f (Markup m) = Markup m"
| "update_element i f [] = []"
| "update_element i f (n # ns) =
     (case find_in_node i n of
        Some e \<Rightarrow> update_in_node i f n # ns
      | None \<Rightarrow> n # update_element i f ns)"

text \<open>\<^verbatim>\<open>target.innerHTML = m\<close> and \<^verbatim>\<open>target.outerHTML = m\<close>\<close>

fun with_innerHTML :: "markup \<Rightarrow> node \<Rightarrow> node" where
  "with_innerHTML m (Element tg attrs cs) = Element tg attrs [Markup m]"
| "with_innerHTML m n = n"

definition set_innerHTML :: "string \<Rightarrow> markup \<Rightarrow> node list \<Rightarrow> node list" where
  "set_innerHTML i m doc = update_element i (with_innerHTML m) doc"

definition set_outerHTML :: "string \<Rightarrow> markup \<Rightarrow> node list \<Rightarrow> node list" where
  "set_outerHTML i m doc = update_element i (\<lambda>_. Markup m) doc"

subsection \<open>The fragment loader (\<^verbatim>\<open>class ComponentLoader\<close>)\<close>

text \<open>
  The names of the members that an object literal inherits from \<^verbatim>\<open>Object.prototype\<close> on
  the platform. Each of them is a function or an object, hence truthy.
\<close>

definition object_prototype_keys :: "string list" where
  "object_prototype_keys =
     [''constructor'', ''hasOwnProperty'', ''isPrototypeOf'', ''propertyIsEnumerable'',
      ''toLocaleString'', ''toString'', ''valueOf'', ''__proto__'',
      ''__defineGetter__'', ''__defineSetter__'', ''__lookupGetter__'', ''__lookupSetter__'']"

text \<open>
  The lookup \<^verbatim>\<open>fallbacks[componentName]\<close> in the object literal of
  \<^verbatim>\<open>showComponentFallback\<close>, where it is truthy: the two keys of the literal, and the
  inherited members. Any other name gives \<^verbatim>\<open>undefined\<close>, here \<open>None\<close>.
\<close>

definition fallbacks :: "string \<Rightarrow> markup option" where
  "fallbacks componentName =
     (if componentName = ''header'' then Some FallbackHeader
      else if componentName = ''footer'' then Some FallbackFooter
      else if componentName \<in> set object_prototype_keys then Some (Inherited componentName)
      else None)"

definition showComponentFallback :: "string \<Rightarrow> string \<Rightarrow> node list \<Rightarrow> node list" where
  "showComponentFallback componentName targetId doc =
     (case getElementById targetId doc of
        None \<Rightarrow> doc
      | Some target \<Rightarrow>
          (case fallbacks componentName of
             None \<Rightarrow> doc
           | Some fallback \<Rightarrow> set_innerHTML targetId fallback doc))"

text \<open>
  \<^verbatim>\<open>loadComponent\<close>, given what the fetch of \<^verbatim>\<open>components/<name>.html\<close> gives. It returns
  the document and the console messages. \<^verbatim>\<open>initComponent\<close>, which runs after a successful
  splice, binds event handlers and refreshes the cart display; it is not tracked.
\<close>

definition loadComponent ::
  "fetch_outcome \<Rightarrow> string \<Rightarrow> string \<Rightarrow> node list \<Rightarrow> node list \<times> console_entry list" where
  "loadComponent outcome componentName targetId doc =
     (case outcome of
        Rejected \<Rightarrow>
          (showComponentFallback componentName targetId doc, [ConsoleError componentName])
      | Responded status body \<Rightarrow>
          if \<not> ok status then
            (showComponentFallback componentName targetId doc, [ConsoleError componentName])
          else
            (case body of
               None \<Rightarrow>
                 (showComponentFallback componentName targetId doc, [ConsoleError componentName])
             | Some html \<Rightarrow>
                 (case getElementById targetId doc of
                    Some targetElement \<Rightarrow>
                      (set_outerHTML targetId (Fetched html) doc, [ConsoleLog componentName])
                  | None \<Rightarrow> (doc, [ConsoleWarn targetId]))))"

text \<open>
  The children of the head that \<^verbatim>\<open>DOMParser\<close> gives for the template literal of
  \<^verbatim>\<open>loadDefaultHead\<close>, in order: the six elements the literal writes. The text of the
  \<^verbatim>\<open>style\<close> element is given with its runs of white space collapsed.
\<close>

definition defaultHead :: "node list" where
  "defaultHead =
     [Element ''meta'' [(''charset'', ''UTF-8'')] [],
      Element ''meta''
        [(''name'', ''viewport''), (''content'', ''width=device-width, initial-scale=1.0'')] [],
      Element ''title'' [] [Text ''SportPro | Tienda Deportiva Online''],
      Element ''meta''
        [(''name'', ''description''),
         (''content'', ''Tienda online de art'' @ [CHR 0xED] @ ''culos deportivos profesionales'')] [],
      Element ''link'' [(''rel'', ''stylesheet''), (''href'', assetsPath @ ''css/main.css'')] [],
      Element ''style'' []
        [Text (''body { font-family: Arial, sans-serif; margin: 0; padding: 0; } ''
               @ ''.fallback-message { padding: 20px; background: #f0f0f0; text-align: center; }'')]]"

text \<open>
  \<^verbatim>\<open>document.head.appendChild(element.cloneNode(true))\<close> for each element, on the list of
  the head's children.
\<close>

definition loadDefaultHead :: "node list \<Rightarrow> node list" where
  "loadDefaultHead head = head @ defaultHead"

text \<open>
  \<^verbatim>\<open>loadHead\<close>, given what the fetch of \<^verbatim>\<open>components/head.html\<close> gives and the platform's
  reading \<open>parseFromString\<close> of a fetched text as the children of a head.
\<close>

definition loadHead ::
  "(string \<Rightarrow> node list) \<Rightarrow> fetch_outcome \<Rightarrow> node list \<Rightarrow> node list \<times> console_entry list" where
  "loadHead parseFromString outcome head =
     (case outcome of
        Rejected \<Rightarrow> (loadDefaultHead head, [ConsoleError ''head''])
      | Responded status body \<Rightarrow>
          if \<not> ok status then (loadDefaultHead head, [ConsoleError ''head''])
          else
            (case body of
               None \<Rightarrow> (loadDefaultHead head, [ConsoleError ''head''])
             | Some headContent \<Rightarrow>
                 (head @ parseFromString headContent, [ConsoleLog ''head''])))"

definition is_title :: "node \<Rightarrow> bool" where
  "is_title n = (case n of Element tg attrs cs \<Rightarrow> tg = ''title'' | _ \<Rightarrow> False)"

definition is_viewport_meta :: "node \<Rightarrow> bool" where
  "is_viewport_meta n =
     (case n of
        Element tg attrs cs \<Rightarrow> tg = ''meta'' \<and> getAttribute ''name'' attrs = Some ''viewport''
      | _ \<Rightarrow> False)"

subsection \<open>The path fixer (\<^verbatim>\<open>class PathFixer\<close>)\<close>

record location =
  protocol :: string
  pathname :: string

text \<open>\<^verbatim>\<open>s.startsWith(p)\<close>, \<^verbatim>\<open>s.substring(n)\<close> and \<^verbatim>\<open>s.includes(p)\<close> (as \<open>includes_str\<close>)\<close>

definition startsWith :: "string \<Rightarrow> string \<Rightarrow> bool" where
  "startsWith s p = (take (length p) s = p)"

definition substring :: "string \<Rightarrow> nat \<Rightarrow> string" where
  "substring s n = drop n s"

fun includes_str :: "string \<Rightarrow> string \<Rightarrow> bool" where
  "includes_str [] p = (p = [])"
| "includes_str (c # cs) p = (startsWith (c # cs) p \<or> includes_str cs p)"

text \<open>The new value of a hyperlink's \<^verbatim>\<open>href\<close> that is not skipped.\<close>

definition newHref :: "bool \<Rightarrow> string \<Rightarrow> string" where
  "newHref isInPages originalHref =
     (if startsWith originalHref ''/'' then
        (if originalHref = ''/'' then (if isInPages then ''../index.html'' else ''index.html'')
         else if startsWith originalHref ''/pages/'' then
           (if isInPages then substring originalHref 6
            else ''pages'' @ substring originalHref 5)
         else originalHref)
      else if startsWith originalHref ''./'' \<and> isInPages then
        (if originalHref = ''./'' then ''../index.html''
         else if originalHref = ''./index.html'' then ''../index.html''
         else originalHref)
      else originalHref)"

text \<open>The body of the loop over \<^verbatim>\<open>document.querySelectorAll('a')\<close>, on one element.\<close>

definition fix_link :: "bool \<Rightarrow> (string \<times> string) list \<Rightarrow> (string \<times> string) list" where
  "fix_link isInPages attrs =
     (case getAttribute ''href'' attrs of
        None \<Rightarrow> attrs
      | Some originalHref \<Rightarrow>
          if originalHref = [] then attrs
          else if startsWith originalHref ''http'' \<or> startsWith originalHref ''#''
                  \<or> startsWith originalHref ''mailto:'' \<or> startsWith originalHref ''tel:''
            then attrs
          else if newHref isInPages originalHref \<noteq> originalHref
            then setAttribute ''href'' (newHref isInPages originalHref) attrs
          else attrs)"

text \<open>
  The body of the loop over \<^verbatim>\<open>document.querySelectorAll('link[href], script[src]')\<close>, on
  one element that the selector matches.
\<close>

definition fix_resource :: "bool \<Rightarrow> (string \<times> string) list \<Rightarrow> (string \<times> string) list" where
  "fix_resource isInPages attrs =
     (let attr = (if getAttribute ''href'' attrs \<noteq> None then ''href'' else ''src'') in
      case getAttribute attr attrs of
        None \<Rightarrow> attrs
      | Some originalUrl \<Rightarrow>
          if originalUrl \<noteq> [] \<and> startsWith originalUrl ''/''
            then setAttribute attr ((if isInPages then ''..'' else ''.'') @ originalUrl) attrs
          else attrs)"

definition is_resource :: "string \<Rightarrow> (string \<times> string) list \<Rightarrow> bool" where
  "is_resource tg attrs =
     (tg = ''link'' \<and> getAttribute ''href'' attrs \<noteq> None
      \<or> tg = ''script'' \<and> getAttribute ''src'' attrs \<noteq> None)"

definition fix_anchors :: "bool \<Rightarrow> string \<Rightarrow> (string \<times> string) list \<Rightarrow> (string \<times> string) list" where
  "fix_anchors isInPages tg attrs = (if tg = ''a'' then fix_link isInPages attrs else attrs)"

definition fix_resources :: "bool \<Rightarrow> string \<Rightarrow> (string \<times> string) list \<Rightarrow> (string \<times> string) list" where
  "fix_resources isInPages tg attrs =
     (if is_resource tg attrs then fix_resource isInPages attrs else attrs)"

text \<open>A loop that rewrites attributes of the elements of the document, in place.\<close>

fun map_elements :: "(string \<Rightarrow> (string \<times> string) list \<Rightarrow> (string \<times> string) list) \<Rightarrow> node \<Rightarrow> node" where
  "map_elements g (Element tg attrs cs) = Element tg (g tg attrs) (map (map_elements g) cs)"
| "map_elements g (Text t) = Text t"
| "map_elements g (Markup m) = Markup m"

text \<open>The elements of a document in document order, each with its tag and attributes.\<close>

fun elements :: "node \<Rightarrow> (string \<times> (string \<times> string) list) list" where
  "elements (Element tg attrs cs) = (tg, attrs) # concat (map elements cs)"
| "elements (Text t) = []"
| "elements (Markup m) = []"

definition fixFileProtocolPaths :: "location \<Rightarrow> node list \<Rightarrow> node list" where
  "fixFileProtocolPaths loc doc =
     (let isInPages = includes_str (pathname loc) ''/pages/'' in
      map (map_elements (fix_resources isInPages)) (map (map_elements (fix_anchors isInPages)) doc))"

definition PathFixer_init :: "location \<Rightarrow> node list \<Rightarrow> node list" where
  "PathFixer_init loc doc =
     (if protocol loc = ''file:'' then fixFileProtocolPaths loc doc else doc)"

subsection \<open>Example values\<close>

definition product_X :: "int option \<Rightarrow> product" where
  "product_X q = \<lparr>prod_id = IdNum 1, prod_name = ''X'', prod_price = 10, prod_quantity = q\<rparr>"

definition item_X :: "int \<Rightarrow> item" where
  "item_X q = \<lparr>item_id = IdNum 1, name = ''X'', price = 10, quantity = q\<rparr>"

definition item_Y :: "int \<Rightarrow> item" where
  "item_Y q = \<lparr>item_id = IdStr ''b7'', name = ''Y'', price = 3, quantity = q\<rparr>"

definition store_of :: "item list \<Rightarrow> store" where
  "store_of c = \<lparr>cart = c, localStorage = Map.empty, cartCount = Some ([], []), cartTotal = Some []\<rparr>"


definition example_page :: "node list" where
  "example_page =
     [Element ''div'' [(''id'', ''header-container'')] [Text ''...''],
      Element ''main'' [(''id'', ''main-content'')] [],
      Element ''div'' [(''id'', ''footer-container'')] []]"

section \<open>Properties of the cart manager\<close>


lemma foldl_plus_sum_list:
  "foldl (\<lambda>acc x. acc + f x) (a :: int) xs = a + sum_list (map f xs)"
  by (induction xs arbitrary: a) (simp_all add: add.assoc)

lemma totalItems_sum_list: "totalItems c = sum_list (map quantity c)"
  by (simp add: totalItems_def foldl_plus_sum_list)

lemma totalPrice_sum_list: "totalPrice c = sum_list (map (\<lambda>it. price it * quantity it) c)"
  by (simp add: totalPrice_def foldl_plus_sum_list)

lemma cart_saveCart: "cart (saveCart s) = cart s"
  by (simp add: saveCart_def)

lemma cart_updateCartUI: "cart (updateCartUI s) = cart s"
  by (simp add: updateCartUI_def)

lemma find_is_None: "find P xs = None \<longleftrightarrow> (\<forall>x \<in> set xs. \<not> P x)"
  by (induction xs) auto

lemma update_first_at_key:
  "k \<notin> key ` set xs \<Longrightarrow> key y = k \<Longrightarrow>
     update_first (\<lambda>x. key x = k) f (xs @ y # ys) = xs @ f y # ys"
  by (induction xs) auto

lemma filter_key_absent:
  "k \<notin> key ` set xs \<Longrightarrow> filter (\<lambda>x. key x \<noteq> k) xs = xs"
  by (induction xs) auto

lemma map_key_update_first:
  "(\<And>x. k (f x) = k x) \<Longrightarrow> map k (update_first P f xs) = map k xs"
  by (induction xs) auto

lemma filter_update_first:
  "(\<And>x. P (f x) = P x) \<Longrightarrow>
     filter (\<lambda>x. \<not> P x) (update_first P f xs) = filter (\<lambda>x. \<not> P x) xs"
  by (induction xs) auto

lemma length_filter_update_first:
  "(\<And>x. P (f x) = P x) \<Longrightarrow>
     length (filter P (update_first P f xs)) = length (filter P xs)"
  by (induction xs) auto

lemma cart_addProduct:
  "cart (addProduct p s) =
     (if prod_id p \<in> item_id ` set (cart s)
      then update_first (\<lambda>it. item_id it = prod_id p)
             (\<lambda>it. it\<lparr>quantity := quantity it + added_quantity p\<rparr>) (cart s)
      else cart s @ [\<lparr>item_id = prod_id p, name = prod_name p, price = prod_price p,
                       quantity = added_quantity p\<rparr>])"
proof (cases "find (\<lambda>it. item_id it = prod_id p) (cart s)")
  case None
  then have "prod_id p \<notin> item_id ` set (cart s)"
    by (auto simp: find_is_None)
  with None show ?thesis
    by (simp add: addProduct_def cart_updateCartUI cart_saveCart)
next
  case (Some a)
  then have "prod_id p \<in> item_id ` set (cart s)"
    using find_is_None [of "\<lambda>it. item_id it = prod_id p" "cart s"] by force
  with Some show ?thesis
    by (simp add: addProduct_def cart_updateCartUI cart_saveCart)
qed

lemma cart_removeProduct:
  "cart (removeProduct pid s) = filter (\<lambda>it. item_id it \<noteq> pid) (cart s)"
  by (simp add: removeProduct_def cart_updateCartUI cart_saveCart)

lemma updateQuantity_absent:
  "pid \<notin> item_id ` set (cart s) \<Longrightarrow> updateQuantity pid q s = s"
proof -
  assume "pid \<notin> item_id ` set (cart s)"
  then have "find (\<lambda>it. item_id it = pid) (cart s) = None"
    by (auto simp: find_is_None)
  then show ?thesis by (simp add: updateQuantity_def)
qed

lemma updateQuantity_present:
  assumes "pid \<in> item_id ` set (cart s)"
  shows "updateQuantity pid q s =
     (if q \<le> 0 then removeProduct pid s
      else updateCartUI (saveCart (s\<lparr>cart := update_first (\<lambda>it. item_id it = pid)
                                 (\<lambda>it. it\<lparr>quantity := q\<rparr>) (cart s)\<rparr>)))"
proof -
  from assms obtain a where a: "find (\<lambda>it. item_id it = pid) (cart s) = Some a"
    using find_is_None [of "\<lambda>it. item_id it = pid" "cart s"] by force
  have "filter (\<lambda>it. item_id it \<noteq> pid)
          (update_first (\<lambda>it. item_id it = pid) (\<lambda>it. it\<lparr>quantity := q\<rparr>) (cart s))
        = filter (\<lambda>it. item_id it \<noteq> pid) (cart s)"
    using filter_update_first [of "\<lambda>it. item_id it = pid" "\<lambda>it. it\<lparr>quantity := q\<rparr>" "cart s"]
    by simp
  with a show ?thesis
    by (simp add: updateQuantity_def removeProduct_def Let_def saveCart_def updateCartUI_def)
qed


lemma length_filter_distinct_key:
  "distinct ks \<Longrightarrow> k \<in> set ks \<Longrightarrow> length (filter (\<lambda>i. i = k) ks) = 1"
proof (induction ks)
  case Nil
  then show ?case by simp
next
  case (Cons a ks)
  show ?case
  proof (cases "a = k")
    case True
    with Cons.prems have "filter (\<lambda>i. i = k) ks = []"
      by (auto simp: filter_empty_conv)
    with True show ?thesis by simp
  next
    case False
    with Cons show ?thesis by auto
  qed
qed

text \<open>
  Claim C2. For every store and every product: when the cart has a line item with the
  product's identifier, \<open>addProduct\<close> adds the added quantity (\<^verbatim>\<open>product.quantity || 1\<close>,
  which is the product's quantity when that is present and not 0) to the quantity of the
  first such item and changes nothing else, so the number of line items with that
  identifier stays what it was, and is exactly one when the identifiers were distinct;
  when the cart has no such item, a new line item with the product's identifier, name,
  price and the added quantity is appended. Adding quantity 2 and then quantity 3 of an
  identifier the cart did not have gives one new line item of quantity 5, and the total
  price grows by 5 times the unit price.
\<close>

theorem addProduct_merges_or_inserts:
  "(\<forall>xs it ys. cart s = xs @ it # ys \<and> item_id it = prod_id p \<and> prod_id p \<notin> item_id ` set xs \<longrightarrow>
      cart (addProduct p s) = xs @ it\<lparr>quantity := quantity it + added_quantity p\<rparr> # ys)
   \<and> (prod_id p \<in> item_id ` set (cart s) \<longrightarrow>
        length (filter (\<lambda>it. item_id it = prod_id p) (cart (addProduct p s)))
          = length (filter (\<lambda>it. item_id it = prod_id p) (cart s)))
   \<and> (prod_id p \<in> item_id ` set (cart s) \<and> distinct (map item_id (cart s)) \<longrightarrow>
        length (filter (\<lambda>it. item_id it = prod_id p) (cart (addProduct p s))) = 1)
   \<and> (prod_id p \<notin> item_id ` set (cart s) \<longrightarrow>
        cart (addProduct p s) =
          cart s @ [\<lparr>item_id = prod_id p, name = prod_name p, price = prod_price p,
                      quantity = added_quantity p\<rparr>])
   \<and> (\<forall>q. prod_quantity p = Some q \<and> q \<noteq> 0 \<longrightarrow> added_quantity p = q)
   \<and> (prod_id p \<notin> item_id ` set (cart s) \<longrightarrow>
        cart (addProduct (p\<lparr>prod_quantity := Some 3\<rparr>) (addProduct (p\<lparr>prod_quantity := Some 2\<rparr>) s))
          = cart s @ [\<lparr>item_id = prod_id p, name = prod_name p, price = prod_price p, quantity = 5\<rparr>]
        \<and> totalPrice (cart (addProduct (p\<lparr>prod_quantity := Some 3\<rparr>)
                               (addProduct (p\<lparr>prod_quantity := Some 2\<rparr>) s)))
              = totalPrice (cart s) + 5 * prod_price p)"
proof (intro conjI allI impI)
  fix xs it ys
  assume h: "cart s = xs @ it # ys \<and> item_id it = prod_id p \<and> prod_id p \<notin> item_id ` set xs"
  then have "prod_id p \<in> item_id ` set (cart s)" by force
  moreover have "update_first (\<lambda>it. item_id it = prod_id p)
       (\<lambda>it. it\<lparr>quantity := quantity it + added_quantity p\<rparr>) (xs @ it # ys)
     = xs @ it\<lparr>quantity := quantity it + added_quantity p\<rparr> # ys"
    using h by (simp add: update_first_at_key)
  ultimately show "cart (addProduct p s) = xs @ it\<lparr>quantity := quantity it + added_quantity p\<rparr> # ys"
    using h by (simp add: cart_addProduct)
next
  assume "prod_id p \<in> item_id ` set (cart s)"
  then show "length (filter (\<lambda>it. item_id it = prod_id p) (cart (addProduct p s)))
          = length (filter (\<lambda>it. item_id it = prod_id p) (cart s))"
    by (simp add: cart_addProduct length_filter_update_first)
next
  assume h: "prod_id p \<in> item_id ` set (cart s) \<and> distinct (map item_id (cart s))"
  have "length (filter (\<lambda>it. item_id it = prod_id p) (cart s))
          = length (filter (\<lambda>i. i = prod_id p) (map item_id (cart s)))"
    by (simp add: filter_map comp_def)
  also have "\<dots> = 1"
    using h by (intro length_filter_distinct_key) auto
  finally show "length (filter (\<lambda>it. item_id it = prod_id p) (cart (addProduct p s))) = 1"
    using h by (simp add: cart_addProduct length_filter_update_first)
next
  assume "prod_id p \<notin> item_id ` set (cart s)"
  then show "cart (addProduct p s) =
          cart s @ [\<lparr>item_id = prod_id p, name = prod_name p, price = prod_price p,
                      quantity = added_quantity p\<rparr>]"
    by (simp add: cart_addProduct)
next
  fix q assume "prod_quantity p = Some q \<and> q \<noteq> 0"
  then show "added_quantity p = q" by (simp add: added_quantity_def)
next
  assume h: "prod_id p \<notin> item_id ` set (cart s)"
  then show "cart (addProduct (p\<lparr>prod_quantity := Some 3\<rparr>) (addProduct (p\<lparr>prod_quantity := Some 2\<rparr>) s))
          = cart s @ [\<lparr>item_id = prod_id p, name = prod_name p, price = prod_price p, quantity = 5\<rparr>]"
    by (simp add: cart_addProduct added_quantity_def update_first_at_key)
  then show "totalPrice (cart (addProduct (p\<lparr>prod_quantity := Some 3\<rparr>)
                               (addProduct (p\<lparr>prod_quantity := Some 2\<rparr>) s)))
              = totalPrice (cart s) + 5 * prod_price p"
    by (simp add: totalPrice_sum_list)
qed


theorem addProduct_merges_or_inserts_witness:
  "prod_id (product_X None) \<notin> item_id ` set (cart (store_of []))
   \<and> cart (addProduct (product_X (Some 3)) (addProduct (product_X (Some 2)) (store_of [])))
       = [item_X 5]
   \<and> totalPrice (cart (addProduct (product_X (Some 3))
                          (addProduct (product_X (Some 2)) (store_of [])))) = 50
   \<and> prod_id (product_X (Some 3)) \<in> item_id ` set (cart (store_of [item_Y 1, item_X 2]))
   \<and> cart (addProduct (product_X (Some 3)) (store_of [item_Y 1, item_X 2])) = [item_Y 1, item_X 5]
   \<and> length (filter (\<lambda>it. item_id it = IdNum 1)
               (cart (addProduct (product_X (Some 3)) (store_of [item_Y 1, item_X 2])))) = 1"
proof -
  note fresh = addProduct_merges_or_inserts [of "store_of []" "product_X None"]
  note again = addProduct_merges_or_inserts [of "store_of [item_Y 1, item_X 2]" "product_X (Some 3)"]
  have "cart (addProduct (product_X (Some 3)) (store_of [item_Y 1, item_X 2])) = [item_Y 1, item_X 5]"
    using again [THEN conjunct1, rule_format, of "[item_Y 1]" "item_X 2" "[]"]
    by (simp add: store_of_def product_X_def item_X_def item_Y_def added_quantity_def)
  then show ?thesis
    using fresh again
    by (simp add: store_of_def product_X_def item_X_def item_Y_def totalPrice_def)
qed

text \<open>
  Claim C3. \<open>updateQuantity\<close> leaves the whole store as it is when no line item has the
  identifier. When one has it and the new quantity is 0 or negative, the resulting store is
  the one \<open>removeProduct\<close> gives: no line item with the identifier is left, and the item
  count and the total price that \<open>updateCartUI\<close> recomputes (and writes to \<^verbatim>\<open>#cartCount\<close>
  and \<^verbatim>\<open>#cartTotal\<close> when the page has them) are the sums over the other line items.
  When the new quantity is positive, the first line item with the identifier gets that
  quantity and the rest of the cart is unchanged.
\<close>

theorem updateQuantity_cases:
  "(productId \<notin> item_id ` set (cart s) \<longrightarrow> updateQuantity productId q s = s)
   \<and> (productId \<in> item_id ` set (cart s) \<and> q \<le> 0 \<longrightarrow>
        updateQuantity productId q s = removeProduct productId s
        \<and> productId \<notin> item_id ` set (cart (updateQuantity productId q s))
        \<and> totalItems (cart (updateQuantity productId q s))
            = sum_list (map quantity (filter (\<lambda>it. item_id it \<noteq> productId) (cart s)))
        \<and> totalPrice (cart (updateQuantity productId q s))
            = sum_list (map (\<lambda>it. price it * quantity it)
                (filter (\<lambda>it. item_id it \<noteq> productId) (cart s)))
        \<and> (cartCount s \<noteq> None \<longrightarrow>
             map_option fst (cartCount (updateQuantity productId q s))
               = Some (show_int (sum_list (map quantity
                    (filter (\<lambda>it. item_id it \<noteq> productId) (cart s))))))
        \<and> (cartTotal s \<noteq> None \<longrightarrow>
             cartTotal (updateQuantity productId q s)
               = Some (toFixed2 (sum_list (map (\<lambda>it. price it * quantity it)
                    (filter (\<lambda>it. item_id it \<noteq> productId) (cart s)))))))
   \<and> (\<forall>xs it ys. cart s = xs @ it # ys \<and> item_id it = productId
          \<and> productId \<notin> item_id ` set xs \<and> 0 < q \<longrightarrow>
        cart (updateQuantity productId q s) = xs @ it\<lparr>quantity := q\<rparr> # ys)"
proof (intro conjI allI impI)
  assume "productId \<notin> item_id ` set (cart s)"
  then show "updateQuantity productId q s = s" by (rule updateQuantity_absent)
next
  assume h: "productId \<in> item_id ` set (cart s) \<and> q \<le> 0"
  then show eq: "updateQuantity productId q s = removeProduct productId s"
    by (simp add: updateQuantity_present)
  show "productId \<notin> item_id ` set (cart (updateQuantity productId q s))"
    by (auto simp: eq cart_removeProduct)
  show "totalItems (cart (updateQuantity productId q s))
            = sum_list (map quantity (filter (\<lambda>it. item_id it \<noteq> productId) (cart s)))"
    by (simp add: eq cart_removeProduct totalItems_sum_list)
  show "totalPrice (cart (updateQuantity productId q s))
            = sum_list (map (\<lambda>it. price it * quantity it)
                (filter (\<lambda>it. item_id it \<noteq> productId) (cart s)))"
    by (simp add: eq cart_removeProduct totalPrice_sum_list)
  {
    assume "cartCount s \<noteq> None"
    then show "map_option fst (cartCount (updateQuantity productId q s))
               = Some (show_int (sum_list (map quantity
                    (filter (\<lambda>it. item_id it \<noteq> productId) (cart s)))))"
      by (auto simp: eq removeProduct_def updateCartUI_def saveCart_def totalItems_sum_list)
  }
  {
    assume "cartTotal s \<noteq> None"
    then show "cartTotal (updateQuantity productId q s)
               = Some (toFixed2 (sum_list (map (\<lambda>it. price it * quantity it)
                    (filter (\<lambda>it. item_id it \<noteq> productId) (cart s)))))"
      by (auto simp: eq removeProduct_def updateCartUI_def saveCart_def totalPrice_sum_list)
  }
next
  fix xs it ys
  assume h: "cart s = xs @ it # ys \<and> item_id it = productId
          \<and> productId \<notin> item_id ` set xs \<and> 0 < q"
  then have "productId \<in> item_id ` set (cart s)" by force
  with h show "cart (updateQuantity productId q s) = xs @ it\<lparr>quantity := q\<rparr> # ys"
    by (simp add: updateQuantity_present cart_updateCartUI cart_saveCart update_first_at_key)
qed


lemma example_items:
  "cart (store_of c) = c"
  "item_id (item_X q) = IdNum 1" "quantity (item_X q) = q" "price (item_X q) = 10"
  "item_id (item_Y q) = IdStr ''b7''" "quantity (item_Y q) = q" "price (item_Y q) = 3"
  "(item_X q)\<lparr>quantity := r\<rparr> = item_X r" "(item_Y q)\<lparr>quantity := r\<rparr> = item_Y r"
  "prod_id (product_X o1) = IdNum 1" "prod_quantity (product_X o1) = o1"
  by (simp_all add: store_of_def item_X_def item_Y_def product_X_def)

theorem updateQuantity_cases_witness:
  "IdNum 9 \<notin> item_id ` set (cart (store_of [item_Y 1, item_X 2]))
   \<and> updateQuantity (IdNum 9) 0 (store_of [item_Y 1, item_X 2]) = store_of [item_Y 1, item_X 2]
   \<and> IdNum 1 \<in> item_id ` set (cart (store_of [item_Y 1, item_X 2])) \<and> (0::int) \<le> 0
   \<and> updateQuantity (IdNum 1) 0 (store_of [item_Y 1, item_X 2])
       = removeProduct (IdNum 1) (store_of [item_Y 1, item_X 2])
   \<and> totalItems (cart (updateQuantity (IdNum 1) 0 (store_of [item_Y 1, item_X 2]))) = 1
   \<and> totalPrice (cart (updateQuantity (IdNum 1) 0 (store_of [item_Y 1, item_X 2]))) = 3
   \<and> cart (updateQuantity (IdNum 1) 7 (store_of [item_Y 1, item_X 2])) = [item_Y 1, item_X 7]"
proof -
  note absent = updateQuantity_cases [of "IdNum 9" "store_of [item_Y 1, item_X 2]" 0]
  note drop = updateQuantity_cases [of "IdNum 1" "store_of [item_Y 1, item_X 2]" 0]
  note set = updateQuantity_cases [of "IdNum 1" "store_of [item_Y 1, item_X 2]" 7]
  have out: "IdNum 9 \<notin> item_id ` set (cart (store_of [item_Y 1, item_X 2]))"
    and inside: "IdNum 1 \<in> item_id ` set (cart (store_of [item_Y 1, item_X 2]))"
    by (simp_all add: example_items)
  have "updateQuantity (IdNum 9) 0 (store_of [item_Y 1, item_X 2]) = store_of [item_Y 1, item_X 2]"
    using absent out by blast
  moreover have "updateQuantity (IdNum 1) 0 (store_of [item_Y 1, item_X 2])
       = removeProduct (IdNum 1) (store_of [item_Y 1, item_X 2])"
    using drop inside by blast
  moreover have "totalItems (cart (updateQuantity (IdNum 1) 0 (store_of [item_Y 1, item_X 2])))
      = sum_list (map quantity (filter (\<lambda>it. item_id it \<noteq> IdNum 1)
          (cart (store_of [item_Y 1, item_X 2]))))"
    using drop inside by blast
  then have "totalItems (cart (updateQuantity (IdNum 1) 0 (store_of [item_Y 1, item_X 2]))) = 1"
    by (simp add: example_items)
  moreover have "totalPrice (cart (updateQuantity (IdNum 1) 0 (store_of [item_Y 1, item_X 2])))
      = sum_list (map (\<lambda>it. price it * quantity it) (filter (\<lambda>it. item_id it \<noteq> IdNum 1)
          (cart (store_of [item_Y 1, item_X 2]))))"
    using drop inside by blast
  then have "totalPrice (cart (updateQuantity (IdNum 1) 0 (store_of [item_Y 1, item_X 2]))) = 3"
    by (simp add: example_items)
  moreover have "cart (updateQuantity (IdNum 1) 7 (store_of [item_Y 1, item_X 2])) = [item_Y 1, item_X 7]"
    using set [THEN conjunct2, THEN conjunct2, rule_format, of "[item_Y 1]" "item_X 2" "[]"]
    by (simp add: example_items)
  ultimately show ?thesis using out inside by simp
qed

text \<open>
  Claim C4. \<open>removeProduct\<close> returns a store for every input (the source has no failing
  step, and the model no error value). With an identifier that no line item has, the list
  of line items is unchanged. With an identifier that exactly one line item has, the cart
  is the old one without that item. In every case no line item with the identifier is
  left and every line item with another identifier stays.
\<close>

theorem removeProduct_absent_or_present:
  "(productId \<notin> item_id ` set (cart s) \<longrightarrow> cart (removeProduct productId s) = cart s)
   \<and> (\<forall>xs it ys. cart s = xs @ it # ys \<and> item_id it = productId
          \<and> productId \<notin> item_id ` set xs \<and> productId \<notin> item_id ` set ys \<longrightarrow>
        cart (removeProduct productId s) = xs @ ys)
   \<and> productId \<notin> item_id ` set (cart (removeProduct productId s))
   \<and> (\<forall>it \<in> set (cart s). item_id it \<noteq> productId \<longrightarrow> it \<in> set (cart (removeProduct productId s)))"
proof (intro conjI allI impI ballI)
  assume "productId \<notin> item_id ` set (cart s)"
  then show "cart (removeProduct productId s) = cart s"
    by (simp add: cart_removeProduct filter_key_absent)
next
  fix xs it ys
  assume h: "cart s = xs @ it # ys \<and> item_id it = productId
          \<and> productId \<notin> item_id ` set xs \<and> productId \<notin> item_id ` set ys"
  then show "cart (removeProduct productId s) = xs @ ys"
    by (simp add: cart_removeProduct filter_key_absent)
next
  show "productId \<notin> item_id ` set (cart (removeProduct productId s))"
    by (auto simp: cart_removeProduct)
next
  fix it assume "it \<in> set (cart s)" "item_id it \<noteq> productId"
  then show "it \<in> set (cart (removeProduct productId s))"
    by (simp add: cart_removeProduct)
qed

theorem removeProduct_absent_or_present_witness:
  "IdNum 99 \<notin> item_id ` set (cart (store_of [item_Y 1, item_X 2]))
   \<and> cart (removeProduct (IdNum 99) (store_of [item_Y 1, item_X 2])) = [item_Y 1, item_X 2]
   \<and> cart (removeProduct (IdStr ''b7'') (store_of [item_Y 1, item_X 2])) = [item_X 2]"
proof -
  note absent = removeProduct_absent_or_present [of "IdNum 99" "store_of [item_Y 1, item_X 2]"]
  note present = removeProduct_absent_or_present [of "IdStr ''b7''" "store_of [item_Y 1, item_X 2]"]
  have "cart (removeProduct (IdStr ''b7'') (store_of [item_Y 1, item_X 2])) = [item_X 2]"
    using present [THEN conjunct2, THEN conjunct1, rule_format, of "[]" "item_Y 1" "[item_X 2]"]
    by (simp add: store_of_def item_X_def item_Y_def)
  then show ?thesis
    using absent by (simp add: store_of_def item_X_def item_Y_def)
qed

lemma list_all_update_first:
  "list_all Q xs \<Longrightarrow> (\<And>x. x \<in> set xs \<Longrightarrow> P x \<Longrightarrow> Q (f x)) \<Longrightarrow> list_all Q (update_first P f xs)"
  by (induction xs) auto

text \<open>
  Claim C6, as stated, fails: \<open>addProduct\<close> does not check the sign of the product's
  quantity. Adding the quantity -1 of identifier 1 to a cart that holds one unit of it
  leaves a line item of quantity 0.
\<close>

theorem cart_inv_broken_by_negative_add:
  "cart_inv (cart (store_of [item_X 1]))
   \<and> \<not> cart_inv (cart (addProduct (product_X (Some (- 1))) (store_of [item_X 1])))"
  by (simp add: cart_inv_def cart_addProduct store_of_def item_X_def product_X_def
      added_quantity_def)

text \<open>
  Claim C6, amended. The statement is about whole numbers: every quantity in the cart, the
  product's quantity and the quantity given to \<open>updateQuantity\<close> are integers, as they
  are in the model. From a cart with at most one line item per identifier and every
  quantity at least 1, \<open>removeProduct\<close> (with any identifier) and \<open>updateQuantity\<close> (with
  any identifier and any integer quantity) give such a cart again, and so does
  \<open>addProduct\<close> whenever the product's quantity is absent or an integer that is not
  negative. A quantity that is not a whole number is outside the statement.
\<close>

theorem cart_inv_preserved:
  "cart_inv (cart s) \<longrightarrow>
     cart_inv (cart (removeProduct productId s))
     \<and> cart_inv (cart (updateQuantity productId q s))
     \<and> (prod_quantity p = None \<or> (\<exists>n. prod_quantity p = Some n \<and> 0 \<le> n) \<longrightarrow>
          cart_inv (cart (addProduct p s)))"
proof (intro impI conjI)
  assume inv: "cart_inv (cart s)"
  show rm: "cart_inv (cart (removeProduct productId s))"
    using inv by (simp add: cart_inv_def cart_removeProduct distinct_map_filter list_all_iff)
  show "cart_inv (cart (updateQuantity productId q s))"
  proof (cases "productId \<in> item_id ` set (cart s)")
    case False
    with inv show ?thesis by (simp add: updateQuantity_absent)
  next
    case True
    show ?thesis
    proof (cases "q \<le> 0")
      case True
      with \<open>productId \<in> item_id ` set (cart s)\<close> rm show ?thesis
        by (simp add: updateQuantity_present)
    next
      case False
      then have "1 \<le> q" by simp
      with inv have "list_all (\<lambda>it. 1 \<le> quantity it)
          (update_first (\<lambda>it. item_id it = productId) (\<lambda>it. it\<lparr>quantity := q\<rparr>) (cart s))"
        by (intro list_all_update_first) (simp_all add: cart_inv_def)
      with inv False True show ?thesis
        by (simp add: updateQuantity_present cart_updateCartUI cart_saveCart cart_inv_def
            map_key_update_first)
    qed
  qed
  assume "prod_quantity p = None \<or> (\<exists>n. prod_quantity p = Some n \<and> 0 \<le> n)"
  then have pos: "1 \<le> added_quantity p"
    by (auto simp: added_quantity_def)
  show "cart_inv (cart (addProduct p s))"
  proof (cases "prod_id p \<in> item_id ` set (cart s)")
    case False
    with inv pos show ?thesis
      by (simp add: cart_addProduct cart_inv_def)
  next
    case True
    from inv pos have "list_all (\<lambda>it. 1 \<le> quantity it)
        (update_first (\<lambda>it. item_id it = prod_id p)
           (\<lambda>it. it\<lparr>quantity := quantity it + added_quantity p\<rparr>) (cart s))"
      by (intro list_all_update_first) (auto simp: cart_inv_def list_all_iff)
    with inv True show ?thesis
      by (simp add: cart_addProduct cart_inv_def map_key_update_first)
  qed
qed

theorem cart_inv_preserved_witness:
  "cart_inv (cart (store_of [item_Y 1, item_X 2]))
   \<and> cart_inv (cart (removeProduct (IdNum 1) (store_of [item_Y 1, item_X 2])))
   \<and> cart_inv (cart (updateQuantity (IdNum 1) 0 (store_of [item_Y 1, item_X 2])))
   \<and> prod_quantity (product_X (Some 0)) = Some 0
   \<and> cart_inv (cart (addProduct (product_X (Some 0)) (store_of [item_Y 1, item_X 2])))"
proof -
  have inv: "cart_inv (cart (store_of [item_Y 1, item_X 2]))"
    by (simp add: cart_inv_def store_of_def item_X_def item_Y_def)
  have q: "prod_quantity (product_X (Some 0)) = Some 0"
    by (simp add: product_X_def)
  from cart_inv_preserved [of "store_of [item_Y 1, item_X 2]" "IdNum 1" 0 "product_X (Some 0)"]
    inv q show ?thesis by simp
qed

text \<open>
  Claim C10. For a product whose quantity is absent or 0, \<open>addProduct\<close> adds exactly 1:
  it appends a new line item of quantity 1 when the cart has no item with the product's
  identifier, and otherwise raises the quantity of the first such item by 1.
\<close>

theorem addProduct_falsy_quantity:
  "prod_quantity p = None \<or> prod_quantity p = Some 0 \<longrightarrow>
     (prod_id p \<notin> item_id ` set (cart s) \<longrightarrow>
        cart (addProduct p s) =
          cart s @ [\<lparr>item_id = prod_id p, name = prod_name p, price = prod_price p, quantity = 1\<rparr>])
     \<and> (\<forall>xs it ys. cart s = xs @ it # ys \<and> item_id it = prod_id p
            \<and> prod_id p \<notin> item_id ` set xs \<longrightarrow>
          cart (addProduct p s) = xs @ it\<lparr>quantity := quantity it + 1\<rparr> # ys)"
proof (intro impI conjI allI)
  assume "prod_quantity p = None \<or> prod_quantity p = Some 0"
  then have one: "added_quantity p = 1"
    by (auto simp: added_quantity_def)
  {
    assume "prod_id p \<notin> item_id ` set (cart s)"
    then show "cart (addProduct p s) =
          cart s @ [\<lparr>item_id = prod_id p, name = prod_name p, price = prod_price p, quantity = 1\<rparr>]"
      by (simp add: cart_addProduct one)
  }
  fix xs it ys
  assume h: "cart s = xs @ it # ys \<and> item_id it = prod_id p \<and> prod_id p \<notin> item_id ` set xs"
  then have "prod_id p \<in> item_id ` set (cart s)" by force
  with h show "cart (addProduct p s) = xs @ it\<lparr>quantity := quantity it + 1\<rparr> # ys"
    by (simp add: cart_addProduct one update_first_at_key)
qed

theorem addProduct_falsy_quantity_witness:
  "prod_quantity (product_X None) = None
   \<and> cart (addProduct (product_X None) (store_of [item_Y 1])) = [item_Y 1, item_X 1]
   \<and> prod_quantity (product_X (Some 0)) = Some 0
   \<and> cart (addProduct (product_X (Some 0)) (store_of [item_Y 1, item_X 2])) = [item_Y 1, item_X 3]"
proof -
  note absent = addProduct_falsy_quantity [of "product_X None" "store_of [item_Y 1]"]
  note zero = addProduct_falsy_quantity [of "product_X (Some 0)" "store_of [item_Y 1, item_X 2]"]
  have q: "prod_quantity (product_X (Some 0)) = Some 0" "prod_quantity (product_X None) = None"
    by (simp_all add: product_X_def)
  have "cart (addProduct (product_X (Some 0)) (store_of [item_Y 1, item_X 2])) = [item_Y 1, item_X 3]"
    using zero [rule_format, OF disjI2, OF q(1), THEN conjunct2, rule_format, of "[item_Y 1]" "item_X 2" "[]"]
    by (simp add: store_of_def product_X_def item_X_def item_Y_def)
  moreover have "cart (addProduct (product_X None) (store_of [item_Y 1])) = [item_Y 1, item_X 1]"
    using absent q(2) by (simp add: store_of_def product_X_def item_X_def item_Y_def)
  ultimately show ?thesis using q by simp
qed

section \<open>Parsing inverts printing, and the persisted cart\<close>







































declare parse_value.simps [simp del]













lemma CartManager_new_absent:
  "storage storage_key = None \<Longrightarrow> CartManager_new storage = Inr []"
proof -
  have "JSON_parse ''null'' = Inr JNull" by code_simp
  then show "storage storage_key = None \<Longrightarrow> CartManager_new storage = Inr []"
    by (simp add: CartManager_new_def)
qed

text \<open>The text that \<open>saveCart\<close> stores for a cart of two line items.\<close>

lemma saved_text_example:
  \<open>localStorage (saveCart (store_of [item_Y 1, item_X 2])) storage_key
     = Some ''[{"id":"b7","name":"Y","price":3,"quantity":1},{"id":1,"name":"X","price":10,"quantity":2}]''\<close>
  by code_simp



text \<open>
  Claim C1, as stated, fails for a corrupt value: with the stored text \<^verbatim>\<open>undefined\<close>, which
  is not JSON, \<^verbatim>\<open>JSON.parse\<close> throws and the constructor, which has no handler, throws
  with it instead of giving an empty cart.
\<close>

theorem corrupt_snapshot_throws:
  "JSON_parse ''undefined'' = Inl SyntaxError
   \<and> CartManager_new (Map.empty(storage_key \<mapsto> ''undefined'')) = Inl SyntaxError"
proof -
  have "JSON_parse ''undefined'' = Inl SyntaxError" by code_simp
  then show ?thesis by (simp add: CartManager_new_def)
qed

text \<open>
  Claim C1, amended. When the storage has no value under the key, the constructor does
  not throw and gives the empty cart. When the stored text is one that \<^verbatim>\<open>JSON.parse\<close>
  rejects, the constructor throws that \<^verbatim>\<open>SyntaxError\<close>.
\<close>

theorem CartManager_new_absent_or_corrupt:
  "(storage storage_key = None \<longrightarrow> CartManager_new storage = Inr [])
   \<and> (\<forall>stored. storage storage_key = Some stored \<and> JSON_parse stored = Inl SyntaxError \<longrightarrow>
        CartManager_new storage = Inl SyntaxError)"
proof (intro conjI impI allI)
  assume "storage storage_key = None"
  then show "CartManager_new storage = Inr []" by (rule CartManager_new_absent)
next
  fix stored
  assume "storage storage_key = Some stored \<and> JSON_parse stored = Inl SyntaxError"
  then show "CartManager_new storage = Inl SyntaxError"
    by (simp add: CartManager_new_def)
qed

theorem CartManager_new_absent_or_corrupt_witness:
  "Map.empty storage_key = None
   \<and> CartManager_new Map.empty = Inr []
   \<and> (Map.empty(storage_key \<mapsto> ''[{'')) storage_key = Some ''[{''
   \<and> JSON_parse ''[{'' = Inl SyntaxError
   \<and> CartManager_new (Map.empty(storage_key \<mapsto> ''[{'')) = Inl SyntaxError"
proof -
  have bad: "JSON_parse ''[{'' = Inl SyntaxError" by code_simp
  from CartManager_new_absent_or_corrupt [of Map.empty]
    CartManager_new_absent_or_corrupt [of "Map.empty(storage_key \<mapsto> ''[{'')"] bad
  show ?thesis by simp
qed

section \<open>Properties of the fragment loader and the path fixer\<close>


lemma found_has_id:
  "find_in_node i n = Some e \<Longrightarrow> \<exists>tg attrs cs. e = Element tg attrs cs \<and> getAttribute ''id'' attrs = Some i"
  "getElementById i ns = Some e \<Longrightarrow> \<exists>tg attrs cs. e = Element tg attrs cs \<and> getAttribute ''id'' attrs = Some i"
  by (induction i n and i ns rule: find_in_node_getElementById.induct)
    (auto split: if_splits option.splits)

lemma update_without_target:
  "find_in_node i n = None \<Longrightarrow> update_in_node i f n = n"
  "getElementById i ns = None \<Longrightarrow> update_element i f ns = ns"
  by (induction i n and i ns rule: find_in_node_getElementById.induct)
    (auto split: if_splits option.splits)

lemma find_after_innerHTML:
  "find_in_node i n = Some e \<Longrightarrow>
     find_in_node i (update_in_node i (with_innerHTML m) n) = Some (with_innerHTML m e)"
  "getElementById i ns = Some e \<Longrightarrow>
     getElementById i (update_element i (with_innerHTML m) ns) = Some (with_innerHTML m e)"
  by (induction i n and i ns rule: find_in_node_getElementById.induct)
    (auto split: if_splits option.splits)

lemma showComponentFallback_present:
  assumes "getElementById targetId doc = Some (Element tg attrs cs)"
    and "fallbacks componentName = Some fallback"
  shows "getElementById targetId (showComponentFallback componentName targetId doc)
    = Some (Element tg attrs [Markup fallback])"
  using assms find_after_innerHTML(2) [of targetId doc "Element tg attrs cs" fallback]
  by (simp add: showComponentFallback_def set_innerHTML_def)

lemma showComponentFallback_nothing:
  "getElementById targetId doc = None \<or> fallbacks componentName = None \<Longrightarrow>
     showComponentFallback componentName targetId doc = doc"
  by (auto simp: showComponentFallback_def split: option.splits)

lemma showComponentFallback_keeps_mount:
  assumes "getElementById targetId doc \<noteq> None"
  shows "getElementById targetId (showComponentFallback componentName targetId doc) \<noteq> None"
proof (cases "fallbacks componentName")
  case None
  with assms show ?thesis by (simp add: showComponentFallback_nothing)
next
  case (Some fallback)
  from assms obtain e where e: "getElementById targetId doc = Some e" by auto
  then obtain tg attrs cs where "e = Element tg attrs cs"
    using found_has_id(2) by blast
  with e Some showComponentFallback_present [of targetId doc tg attrs cs componentName fallback]
  show ?thesis by simp
qed

lemma loadComponent_failed:
  "fetch_failed outcome \<Longrightarrow>
     loadComponent outcome componentName targetId doc
       = (showComponentFallback componentName targetId doc, [ConsoleError componentName])"
  by (auto simp: fetch_failed_def loadComponent_def split: fetch_outcome.splits)

lemma getElementById_append:
  "getElementById i pre = None \<Longrightarrow> getElementById i (pre @ ns) = getElementById i ns"
  by (induction pre) (auto split: option.splits)

lemma update_element_append:
  "getElementById i pre = None \<Longrightarrow> update_element i f (pre @ ns) = pre @ update_element i f ns"
  by (induction pre) (auto split: option.splits)

lemma showComponentFallback_installed:
  "getElementById targetId doc \<noteq> None \<Longrightarrow> fallbacks componentName = Some fallback \<Longrightarrow>
     showComponentFallback componentName targetId doc
       = update_element targetId (with_innerHTML fallback) doc"
  by (auto simp: showComponentFallback_def set_innerHTML_def)

lemma showComponentFallback_top_level:
  assumes "getElementById targetId pre = None"
    and "targetId \<noteq> []" and "getAttribute ''id'' attrs = Some targetId"
    and "fallbacks componentName = Some fallback"
  shows "showComponentFallback componentName targetId (pre @ Element tg attrs cs # post)
    = pre @ Element tg attrs [Markup fallback] # post"
proof -
  have "getElementById targetId (pre @ Element tg attrs cs # post) \<noteq> None"
    using assms by (simp add: getElementById_append)
  then show ?thesis
    using assms
    by (simp add: showComponentFallback_installed update_element_append)
qed

lemma showComponentFallback_nested:
  assumes "getElementById targetId pre = None"
    and "\<not> (targetId \<noteq> [] \<and> getAttribute ''id'' attrs = Some targetId)"
    and "getElementById targetId cs \<noteq> None"
    and "fallbacks componentName = Some fallback"
  shows "showComponentFallback componentName targetId (pre @ Element tg attrs cs # post)
    = pre @ Element tg attrs (showComponentFallback componentName targetId cs) # post"
proof -
  from assms(3) obtain e where e: "getElementById targetId cs = Some e" by auto
  with assms have "getElementById targetId (pre @ Element tg attrs cs # post) \<noteq> None"
    by (auto simp: getElementById_append)
  then show ?thesis
    using assms e
    by (auto simp: showComponentFallback_installed update_element_append)
qed

lemma getElementById_empty_id:
  "find_in_node [] n = None"
  "getElementById [] ns = None"
  by (induction "[] :: string" n and "[] :: string" ns rule: find_in_node_getElementById.induct)
    simp_all

lemma fallbacks_cases:
  "fallbacks componentName = Some fallback \<longleftrightarrow>
     componentName = ''header'' \<and> fallback = FallbackHeader
     \<or> componentName = ''footer'' \<and> fallback = FallbackFooter
     \<or> componentName \<in> set object_prototype_keys \<and> fallback = Inherited componentName"
proof -
  have "''header'' \<notin> set object_prototype_keys" "''footer'' \<notin> set object_prototype_keys"
    by (simp_all add: object_prototype_keys_def)
  then show ?thesis
    by (auto simp: fallbacks_def)
qed

text \<open>
  Claim C7, as stated, fails for a missing mount element: a fallback block is defined for
  \<^verbatim>\<open>header\<close>, but on a page without \<^verbatim>\<open>#header-container\<close> neither a successful fetch (which
  ends in a warning) nor a rejected one (which ends in the error message) puts the block
  anywhere; the document is what it was.
\<close>

theorem missing_mount_gets_no_fallback:
  "fallbacks ''header'' = Some FallbackHeader
   \<and> \<not> fetch_failed (Responded 200 (Some ''<header></header>''))
   \<and> loadComponent (Responded 200 (Some ''<header></header>'')) ''header'' ''header-container''
         [Element ''main'' [(''id'', ''main-content'')] []]
       = ([Element ''main'' [(''id'', ''main-content'')] []], [ConsoleWarn ''header-container''])
   \<and> loadComponent Rejected ''header'' ''header-container''
         [Element ''main'' [(''id'', ''main-content'')] []]
       = ([Element ''main'' [(''id'', ''main-content'')] []], [ConsoleError ''header''])"
  by (simp add: fallbacks_def fetch_failed_def ok_def loadComponent_def showComponentFallback_def
      getAttribute_def)

text \<open>
  Claim C7, amended. When the fetch is rejected, answers with a non-success status or has
  an unreadable body, \<open>loadComponent\<close> logs an error. If the mount element exists and the
  lookup of the fragment name in the table of fallbacks gives a value (the block of
  \<^verbatim>\<open>header\<close> or \<^verbatim>\<open>footer\<close>, or the text of an inherited member for a name such as
  \<^verbatim>\<open>constructor\<close>), the mount element keeps its tag and attributes and its contents become
  that value, and nothing else in the document changes: a mount among the top-level nodes
  is replaced in place, and below an element that holds the mount the loader acts on the
  children of that element. If the mount element is missing or the lookup gives nothing,
  the document is unchanged. A mount element that existed still exists afterwards. When the
  fetch succeeds and the mount element is missing, the document is unchanged and a warning
  is logged.
\<close>

theorem loadComponent_failure_paths:
  "(fetch_failed outcome \<longrightarrow>
      snd (loadComponent outcome componentName targetId doc) = [ConsoleError componentName]
      \<and> (\<forall>tg attrs cs fallback.
            getElementById targetId doc = Some (Element tg attrs cs)
            \<and> fallbacks componentName = Some fallback \<longrightarrow>
            getElementById targetId (fst (loadComponent outcome componentName targetId doc))
              = Some (Element tg attrs [Markup fallback]))
      \<and> (\<forall>pre tg attrs cs post fallback.
            doc = pre @ Element tg attrs cs # post \<and> getElementById targetId pre = None
            \<and> targetId \<noteq> [] \<and> getAttribute ''id'' attrs = Some targetId
            \<and> fallbacks componentName = Some fallback \<longrightarrow>
            fst (loadComponent outcome componentName targetId doc)
              = pre @ Element tg attrs [Markup fallback] # post)
      \<and> (\<forall>pre tg attrs cs post fallback.
            doc = pre @ Element tg attrs cs # post \<and> getElementById targetId pre = None
            \<and> \<not> (targetId \<noteq> [] \<and> getAttribute ''id'' attrs = Some targetId)
            \<and> getElementById targetId cs \<noteq> None
            \<and> fallbacks componentName = Some fallback \<longrightarrow>
            fst (loadComponent outcome componentName targetId doc)
              = pre @ Element tg attrs (fst (loadComponent outcome componentName targetId cs)) # post)
      \<and> (getElementById targetId doc = None \<or> fallbacks componentName = None \<longrightarrow>
            fst (loadComponent outcome componentName targetId doc) = doc)
      \<and> (getElementById targetId doc \<noteq> None \<longrightarrow>
            getElementById targetId (fst (loadComponent outcome componentName targetId doc)) \<noteq> None)
      \<and> (targetId = [] \<longrightarrow> fst (loadComponent outcome componentName targetId doc) = doc)
      \<and> (\<forall>fallback. fallbacks componentName = Some fallback \<longleftrightarrow>
            componentName = ''header'' \<and> fallback = FallbackHeader
            \<or> componentName = ''footer'' \<and> fallback = FallbackFooter
            \<or> componentName \<in> set object_prototype_keys \<and> fallback = Inherited componentName))
   \<and> (\<not> fetch_failed outcome \<and> getElementById targetId doc = None \<longrightarrow>
        loadComponent outcome componentName targetId doc = (doc, [ConsoleWarn targetId]))"
proof (intro conjI impI allI)
  assume f: "fetch_failed outcome"
  then show "snd (loadComponent outcome componentName targetId doc) = [ConsoleError componentName]"
    by (simp add: loadComponent_failed)
  {
    fix tg attrs cs fallback
    assume "getElementById targetId doc = Some (Element tg attrs cs)
            \<and> fallbacks componentName = Some fallback"
    then show "getElementById targetId (fst (loadComponent outcome componentName targetId doc))
              = Some (Element tg attrs [Markup fallback])"
      using f by (simp add: loadComponent_failed showComponentFallback_present)
  }
  {
    fix pre tg attrs cs post fallback
    assume "doc = pre @ Element tg attrs cs # post \<and> getElementById targetId pre = None
            \<and> targetId \<noteq> [] \<and> getAttribute ''id'' attrs = Some targetId
            \<and> fallbacks componentName = Some fallback"
    then show "fst (loadComponent outcome componentName targetId doc)
              = pre @ Element tg attrs [Markup fallback] # post"
      using f by (simp add: loadComponent_failed showComponentFallback_top_level)
  }
  {
    fix pre tg attrs cs post fallback
    assume "doc = pre @ Element tg attrs cs # post \<and> getElementById targetId pre = None
            \<and> \<not> (targetId \<noteq> [] \<and> getAttribute ''id'' attrs = Some targetId)
            \<and> getElementById targetId cs \<noteq> None
            \<and> fallbacks componentName = Some fallback"
    then show "fst (loadComponent outcome componentName targetId doc)
              = pre @ Element tg attrs (fst (loadComponent outcome componentName targetId cs)) # post"
      using f showComponentFallback_nested [of targetId pre attrs cs componentName fallback tg post]
      by (simp add: loadComponent_failed)
  }
  {
    assume "getElementById targetId doc = None \<or> fallbacks componentName = None"
    then show "fst (loadComponent outcome componentName targetId doc) = doc"
      using f by (simp add: loadComponent_failed showComponentFallback_nothing)
  }
  {
    assume "targetId = []"
    then have "getElementById targetId doc = None"
      by (simp add: getElementById_empty_id)
    then show "fst (loadComponent outcome componentName targetId doc) = doc"
      using f by (simp add: loadComponent_failed showComponentFallback_nothing)
  }
  {
    fix fallback
    show "fallbacks componentName = Some fallback \<longleftrightarrow>
            componentName = ''header'' \<and> fallback = FallbackHeader
            \<or> componentName = ''footer'' \<and> fallback = FallbackFooter
            \<or> componentName \<in> set object_prototype_keys \<and> fallback = Inherited componentName"
      by (rule fallbacks_cases)
  }
  {
    assume "getElementById targetId doc \<noteq> None"
    then show "getElementById targetId (fst (loadComponent outcome componentName targetId doc)) \<noteq> None"
      using f by (simp add: loadComponent_failed showComponentFallback_keeps_mount)
  }
next
  assume "\<not> fetch_failed outcome \<and> getElementById targetId doc = None"
  then show "loadComponent outcome componentName targetId doc = (doc, [ConsoleWarn targetId])"
    by (auto simp: fetch_failed_def loadComponent_def split: fetch_outcome.splits)
qed

theorem loadComponent_failure_paths_witness:
  "fetch_failed (Responded 404 (Some ''Not Found''))
   \<and> loadComponent (Responded 404 (Some ''Not Found'')) ''header'' ''header-container'' example_page
       = ([Element ''div'' [(''id'', ''header-container'')] [Markup FallbackHeader],
           Element ''main'' [(''id'', ''main-content'')] [],
           Element ''div'' [(''id'', ''footer-container'')] []],
          [ConsoleError ''header''])
   \<and> getElementById ''header-container''
         (fst (loadComponent (Responded 404 (Some ''Not Found'')) ''header'' ''header-container''
                 example_page)) \<noteq> None
   \<and> \<not> fetch_failed (Responded 200 (Some ''<nav></nav>''))
   \<and> getElementById ''nav-container'' example_page = None
   \<and> loadComponent (Responded 200 (Some ''<nav></nav>'')) ''nav'' ''nav-container'' example_page
       = (example_page, [ConsoleWarn ''nav-container''])
   \<and> fallbacks ''constructor'' = Some (Inherited ''constructor'')
   \<and> fst (loadComponent Rejected ''constructor'' ''footer-container'' example_page)
       = [Element ''div'' [(''id'', ''header-container'')] [Text ''...''],
          Element ''main'' [(''id'', ''main-content'')] [],
          Element ''div'' [(''id'', ''footer-container'')] [Markup (Inherited ''constructor'')]]"
proof -
  have failed: "fetch_failed (Responded 404 (Some ''Not Found''))"
    and fine: "\<not> fetch_failed (Responded 200 (Some ''<nav></nav>''))"
    by (simp_all add: fetch_failed_def ok_def)
  have mount: "getElementById ''header-container'' example_page \<noteq> None"
    and none: "getElementById ''nav-container'' example_page = None"
    by (simp_all add: example_page_def getAttribute_def)
  note bad = loadComponent_failure_paths
    [of "Responded 404 (Some ''Not Found'')" "''header''" "''header-container''" example_page]
  note good = loadComponent_failure_paths
    [of "Responded 200 (Some ''<nav></nav>'')" "''nav''" "''nav-container''" example_page]
  have "loadComponent (Responded 404 (Some ''Not Found'')) ''header'' ''header-container'' example_page
       = ([Element ''div'' [(''id'', ''header-container'')] [Markup FallbackHeader],
           Element ''main'' [(''id'', ''main-content'')] [],
           Element ''div'' [(''id'', ''footer-container'')] []],
          [ConsoleError ''header''])"
    by (simp add: loadComponent_def ok_def showComponentFallback_def fallbacks_def
        set_innerHTML_def example_page_def getAttribute_def)
  moreover have "getElementById ''header-container''
         (fst (loadComponent (Responded 404 (Some ''Not Found'')) ''header'' ''header-container''
                 example_page)) \<noteq> None"
    using bad failed mount by blast
  moreover have "loadComponent (Responded 200 (Some ''<nav></nav>'')) ''nav'' ''nav-container'' example_page
       = (example_page, [ConsoleWarn ''nav-container''])"
    using good fine none by blast
  moreover have inherited: "fallbacks ''constructor'' = Some (Inherited ''constructor'')"
    by (simp add: fallbacks_def object_prototype_keys_def)
  moreover have "fst (loadComponent Rejected ''constructor'' ''footer-container'' example_page)
       = [Element ''div'' [(''id'', ''header-container'')] [Text ''...''],
          Element ''main'' [(''id'', ''main-content'')] []]
         @ Element ''div'' [(''id'', ''footer-container'')] [Markup (Inherited ''constructor'')] # []"
  proof -
    have rejected: "fetch_failed Rejected" by (simp add: fetch_failed_def)
    have before: "getElementById ''footer-container''
        [Element ''div'' [(''id'', ''header-container'')] [Text ''...''],
         Element ''main'' [(''id'', ''main-content'')] []] = None"
      by (simp add: getAttribute_def)
    have page: "example_page
        = [Element ''div'' [(''id'', ''header-container'')] [Text ''...''],
           Element ''main'' [(''id'', ''main-content'')] []]
          @ Element ''div'' [(''id'', ''footer-container'')] [] # []"
      by (simp add: example_page_def)
    have own: "getAttribute ''id'' [(''id'', ''footer-container'')] = Some ''footer-container''"
      by (simp add: getAttribute_def)
    show ?thesis
      using loadComponent_failure_paths
        [of Rejected "''constructor''" "''footer-container''" example_page,
         THEN conjunct1, THEN mp, OF rejected, THEN conjunct2, THEN conjunct2, THEN conjunct1,
         rule_format,
         of "[Element ''div'' [(''id'', ''header-container'')] [Text ''...''],
              Element ''main'' [(''id'', ''main-content'')] []]"
            "''div''" "[(''id'', ''footer-container'')]" "[]" "[]" "Inherited ''constructor''"]
        page before own inherited
      by blast
  qed
  ultimately show ?thesis using failed fine none by simp
qed

text \<open>
  Claim C8. Whenever loading the head fragment fails, \<open>loadHead\<close> appends the fixed
  default elements to the head: afterwards the head contains a \<^verbatim>\<open>title\<close> element and a
  \<^verbatim>\<open>meta\<close> element named \<^verbatim>\<open>viewport\<close>, and it is not empty. (Parsing with
  \<^verbatim>\<open>DOMParser\<close> does not throw; the failures are those of the fetch.)
\<close>

theorem loadHead_failure_installs_default_head:
  "fetch_failed outcome \<longrightarrow>
     fst (loadHead parseFromString outcome head) = head @ defaultHead
     \<and> list_ex is_title (fst (loadHead parseFromString outcome head))
     \<and> list_ex is_viewport_meta (fst (loadHead parseFromString outcome head))
     \<and> fst (loadHead parseFromString outcome head) \<noteq> []"
proof
  assume "fetch_failed outcome"
  then have eq: "fst (loadHead parseFromString outcome head) = head @ defaultHead"
    by (auto simp: fetch_failed_def loadHead_def loadDefaultHead_def split: fetch_outcome.splits)
  have "list_ex is_title defaultHead" "list_ex is_viewport_meta defaultHead" "defaultHead \<noteq> []"
    by (simp_all add: defaultHead_def is_title_def is_viewport_meta_def getAttribute_def)
  with eq show "fst (loadHead parseFromString outcome head) = head @ defaultHead
     \<and> list_ex is_title (fst (loadHead parseFromString outcome head))
     \<and> list_ex is_viewport_meta (fst (loadHead parseFromString outcome head))
     \<and> fst (loadHead parseFromString outcome head) \<noteq> []"
    by simp
qed

theorem loadHead_failure_installs_default_head_witness:
  "fetch_failed (Responded 500 None)
   \<and> fst (loadHead (\<lambda>_. []) (Responded 500 None) []) = defaultHead
   \<and> list_ex is_title (fst (loadHead (\<lambda>_. []) (Responded 500 None) []))
   \<and> list_ex is_viewport_meta (fst (loadHead (\<lambda>_. []) (Responded 500 None) []))
   \<and> fetch_failed Rejected
   \<and> fst (loadHead (\<lambda>_. []) Rejected [Element ''meta'' [(''charset'', ''UTF-8'')] []]) \<noteq> []"
proof -
  have f: "fetch_failed (Responded 500 None)" "fetch_failed Rejected"
    by (simp_all add: fetch_failed_def ok_def)
  note status = loadHead_failure_installs_default_head
    [of "Responded 500 None" "\<lambda>_. []" "[]", THEN mp, OF f(1)]
  note network = loadHead_failure_installs_default_head
    [of Rejected "\<lambda>_. []" "[Element ''meta'' [(''charset'', ''UTF-8'')] []]", THEN mp, OF f(2)]
  have "fst (loadHead (\<lambda>_. []) (Responded 500 None) []) = defaultHead"
    using status by simp
  moreover have "list_ex is_title (fst (loadHead (\<lambda>_. []) (Responded 500 None) []))"
    using status by blast
  moreover have "list_ex is_viewport_meta (fst (loadHead (\<lambda>_. []) (Responded 500 None) []))"
    using status by blast
  moreover have "fst (loadHead (\<lambda>_. []) Rejected [Element ''meta'' [(''charset'', ''UTF-8'')] []]) \<noteq> []"
    using network by blast
  ultimately show ?thesis using f by blast
qed


lemma startsWith_iff: "startsWith s p \<longleftrightarrow> (\<exists>t. s = p @ t)"
proof
  assume "startsWith s p"
  then have "s = p @ drop (length p) s"
    by (metis append_take_drop_id startsWith_def)
  then show "\<exists>t. s = p @ t" ..
next
  assume "\<exists>t. s = p @ t"
  then show "startsWith s p" by (auto simp: startsWith_def)
qed

lemma getAttribute_setAttribute: "getAttribute a (setAttribute a v attrs) = Some v"
  by (induction attrs) (auto simp: getAttribute_def)

lemma root_relative_not_skipped:
  assumes "startsWith h ''/''"
  shows "h \<noteq> []" "\<not> startsWith h ''http''" "\<not> startsWith h ''#''"
    "\<not> startsWith h ''mailto:''" "\<not> startsWith h ''tel:''" "\<not> startsWith h ''./''"
  using assms by (auto simp: startsWith_iff)

lemma fix_link_root_relative:
  assumes "getAttribute ''href'' attrs = Some h" and "startsWith h ''/''"
  shows "fix_link b attrs = (if newHref b h \<noteq> h then setAttribute ''href'' (newHref b h) attrs else attrs)"
  using assms root_relative_not_skipped [OF assms(2)] by (simp add: fix_link_def)

lemma newHref_pages_changes:
  assumes "startsWith h ''/pages/''"
  shows "newHref b h \<noteq> h"
proof -
  from assms obtain t where h: "h = ''/pages/'' @ t"
    by (auto simp: startsWith_iff)
  then have root: "startsWith h ''/''" and pages: "startsWith h ''/pages/''" and "h \<noteq> ''/''"
    by (simp_all add: startsWith_def)
  then have "newHref b h = (if b then substring h 6 else ''pages'' @ substring h 5)"
    by (simp add: newHref_def)
  then show ?thesis
    using h by (auto simp: substring_def)
qed

lemma newHref_other_root_relative:
  "startsWith h ''/'' \<Longrightarrow> h \<noteq> ''/'' \<Longrightarrow> \<not> startsWith h ''/pages/'' \<Longrightarrow> newHref b h = h"
  by (simp add: newHref_def)

lemma newHref_root: "newHref b ''/'' = (if b then ''../index.html'' else ''index.html'')"
  by (simp add: newHref_def startsWith_def)

lemma elements_map_elements:
  "elements (map_elements g n) = map (\<lambda>(tg, attrs). (tg, g tg attrs)) (elements n)"
proof (induction n)
  case (Element tg attrs cs)
  then have "map (\<lambda>c. elements (map_elements g c)) cs
      = map (\<lambda>c. map (\<lambda>(tg, attrs). (tg, g tg attrs)) (elements c)) cs"
    by (intro map_cong) simp_all
  then have "concat (map (\<lambda>c. elements (map_elements g c)) cs)
      = concat (map (\<lambda>c. map (\<lambda>(tg, attrs). (tg, g tg attrs)) (elements c)) cs)"
    by (rule arg_cong)
  then show ?case by (simp add: map_concat comp_def)
qed simp_all

lemma elements_fixFileProtocolPaths:
  "concat (map elements (fixFileProtocolPaths loc doc))
     = map (\<lambda>(tg, attrs). (tg, fix_resources (includes_str (pathname loc) ''/pages/'') tg
                                (fix_anchors (includes_str (pathname loc) ''/pages/'') tg attrs)))
         (concat (map elements doc))"
  by (induction doc)
    (simp_all add: fixFileProtocolPaths_def Let_def elements_map_elements map_concat comp_def
      case_prod_unfold)

text \<open>
  Claim C9, as stated, fails for hyperlinks: on a page opened from a file, a link to the
  root-relative path \<^verbatim>\<open>/contacto.html\<close> is not rewritten.
\<close>

theorem root_relative_link_left_alone:
  "PathFixer_init \<lparr>protocol = ''file:'', pathname = ''/home/ana/tienda/index.html''\<rparr>
      [Element ''a'' [(''href'', ''/contacto.html'')] [Text ''Contacto'']]
   = [Element ''a'' [(''href'', ''/contacto.html'')] [Text ''Contacto'']]
   \<and> startsWith ''/contacto.html'' ''/''"
  by (simp add: PathFixer_init_def fixFileProtocolPaths_def fix_anchors_def fix_resources_def
      is_resource_def fix_link_def getAttribute_def newHref_def startsWith_def)

text \<open>
  Claim C9, amended. \<open>PathFixer_init\<close> changes nothing unless the protocol is \<^verbatim>\<open>file:\<close>.
  Under \<^verbatim>\<open>file:\<close> every element of the document gets the anchor rule and then the
  resource rule, with \<open>b\<close> telling whether the path of the page includes \<^verbatim>\<open>/pages/\<close>.
  On a hyperlink: the resource rule does nothing; the href \<^verbatim>\<open>/\<close> becomes
  \<^verbatim>\<open>../index.html\<close> or \<^verbatim>\<open>index.html\<close>; an href that starts with \<^verbatim>\<open>/pages/\<close> is replaced by
  another value; any other root-relative href is left as it is; and an href that starts
  with \<^verbatim>\<open>http\<close>, \<^verbatim>\<open>#\<close>, \<^verbatim>\<open>mailto:\<close> or \<^verbatim>\<open>tel:\<close> is left as it is. On a \<^verbatim>\<open>link\<close> element
  with an href, and on a \<^verbatim>\<open>script\<close> element with a src, the anchor rule does nothing and
  a reference that starts with \<^verbatim>\<open>/\<close> gets \<^verbatim>\<open>..\<close> or \<^verbatim>\<open>.\<close> in front, while any other
  reference keeps its value.
\<close>

theorem PathFixer_rules:
  "(protocol loc \<noteq> ''file:'' \<longrightarrow> PathFixer_init loc doc = doc)
   \<and> (protocol loc = ''file:'' \<longrightarrow>
        concat (map elements (PathFixer_init loc doc))
          = map (\<lambda>(tg, attrs). (tg, fix_resources (includes_str (pathname loc) ''/pages/'') tg
                                     (fix_anchors (includes_str (pathname loc) ''/pages/'') tg attrs)))
              (concat (map elements doc)))
   \<and> (\<forall>h. getAttribute ''href'' attrs = Some h \<longrightarrow>
         fix_resources b ''a'' attrs = attrs
         \<and> (h = ''/'' \<longrightarrow>
              getAttribute ''href'' (fix_anchors b ''a'' attrs)
                = Some (if b then ''../index.html'' else ''index.html''))
         \<and> (startsWith h ''/pages/'' \<longrightarrow>
              getAttribute ''href'' (fix_anchors b ''a'' attrs) \<noteq> Some h)
         \<and> (startsWith h ''/'' \<and> h \<noteq> ''/'' \<and> \<not> startsWith h ''/pages/'' \<longrightarrow>
              fix_anchors b ''a'' attrs = attrs)
         \<and> (startsWith h ''http'' \<or> startsWith h ''#'' \<or> startsWith h ''mailto:''
              \<or> startsWith h ''tel:'' \<longrightarrow>
              fix_anchors b ''a'' attrs = attrs))
   \<and> (\<forall>u. getAttribute ''href'' attrs = Some u \<and> u \<noteq> [] \<longrightarrow>
         fix_anchors b ''link'' attrs = attrs
         \<and> getAttribute ''href'' (fix_resources b ''link'' attrs)
             = Some (if startsWith u ''/'' then (if b then ''..'' else ''.'') @ u else u))
   \<and> (\<forall>u. getAttribute ''href'' attrs = None \<and> getAttribute ''src'' attrs = Some u \<and> u \<noteq> [] \<longrightarrow>
         fix_anchors b ''script'' attrs = attrs
         \<and> getAttribute ''src'' (fix_resources b ''script'' attrs)
             = Some (if startsWith u ''/'' then (if b then ''..'' else ''.'') @ u else u))"
proof (intro conjI impI allI)
  assume "protocol loc \<noteq> ''file:''"
  then show "PathFixer_init loc doc = doc" by (simp add: PathFixer_init_def)
next
  assume "protocol loc = ''file:''"
  then show "concat (map elements (PathFixer_init loc doc))
          = map (\<lambda>(tg, attrs). (tg, fix_resources (includes_str (pathname loc) ''/pages/'') tg
                                     (fix_anchors (includes_str (pathname loc) ''/pages/'') tg attrs)))
              (concat (map elements doc))"
    by (simp add: PathFixer_init_def elements_fixFileProtocolPaths)
next
  fix h assume h: "getAttribute ''href'' attrs = Some h"
  show "fix_resources b ''a'' attrs = attrs"
    by (simp add: fix_resources_def is_resource_def)
  {
    assume "h = ''/''"
    with h show "getAttribute ''href'' (fix_anchors b ''a'' attrs)
                = Some (if b then ''../index.html'' else ''index.html'')"
      by (simp add: fix_anchors_def fix_link_def startsWith_def newHref_root
          getAttribute_setAttribute)
  }
  {
    assume p: "startsWith h ''/pages/''"
    then have "startsWith h ''/''" by (auto simp: startsWith_iff)
    with h newHref_pages_changes [OF p, of b]
    show "getAttribute ''href'' (fix_anchors b ''a'' attrs) \<noteq> Some h"
      by (simp add: fix_anchors_def fix_link_root_relative getAttribute_setAttribute)
  }
  {
    assume "startsWith h ''/'' \<and> h \<noteq> ''/'' \<and> \<not> startsWith h ''/pages/''"
    with h show "fix_anchors b ''a'' attrs = attrs"
      by (simp add: fix_anchors_def fix_link_root_relative newHref_other_root_relative)
  }
  {
    assume "startsWith h ''http'' \<or> startsWith h ''#'' \<or> startsWith h ''mailto:''
              \<or> startsWith h ''tel:''"
    with h show "fix_anchors b ''a'' attrs = attrs"
      by (auto simp: fix_anchors_def fix_link_def)
  }
next
  fix u assume u: "getAttribute ''href'' attrs = Some u \<and> u \<noteq> []"
  show "fix_anchors b ''link'' attrs = attrs"
    by (simp add: fix_anchors_def)
  from u show "getAttribute ''href'' (fix_resources b ''link'' attrs)
             = Some (if startsWith u ''/'' then (if b then ''..'' else ''.'') @ u else u)"
    by (simp add: fix_resources_def is_resource_def fix_resource_def getAttribute_setAttribute)
next
  fix u assume u: "getAttribute ''href'' attrs = None \<and> getAttribute ''src'' attrs = Some u \<and> u \<noteq> []"
  show "fix_anchors b ''script'' attrs = attrs"
    by (simp add: fix_anchors_def)
  from u show "getAttribute ''src'' (fix_resources b ''script'' attrs)
             = Some (if startsWith u ''/'' then (if b then ''..'' else ''.'') @ u else u)"
    by (simp add: fix_resources_def is_resource_def fix_resource_def getAttribute_setAttribute)
qed


theorem PathFixer_rules_witness:
  "protocol \<lparr>protocol = ''https:'', pathname = ''/pages/ofertas.html''\<rparr> \<noteq> ''file:''
   \<and> PathFixer_init \<lparr>protocol = ''https:'', pathname = ''/pages/ofertas.html''\<rparr>
         [Element ''a'' [(''href'', ''/'')] []]
       = [Element ''a'' [(''href'', ''/'')] []]
   \<and> getAttribute ''href'' (fix_anchors False ''a'' [(''class'', ''nav-link''), (''href'', ''/'')])
       = Some ''index.html''
   \<and> startsWith ''https://example.org/'' ''http''
   \<and> fix_anchors True ''a'' [(''href'', ''https://example.org/'')] = [(''href'', ''https://example.org/'')]
   \<and> startsWith ''/assets/css/main.css'' ''/''
   \<and> getAttribute ''href''
         (fix_resources True ''link'' [(''rel'', ''stylesheet''), (''href'', ''/assets/css/main.css'')])
       = Some ''../assets/css/main.css''
   \<and> getAttribute ''src'' (fix_resources False ''script'' [(''src'', ''/assets/js/main.js'')])
       = Some ''./assets/js/main.js''"
proof -
  have served: "protocol \<lparr>protocol = ''https:'', pathname = ''/pages/ofertas.html''\<rparr> \<noteq> ''file:''"
    by simp
  have "PathFixer_init \<lparr>protocol = ''https:'', pathname = ''/pages/ofertas.html''\<rparr>
         [Element ''a'' [(''href'', ''/'')] []]
       = [Element ''a'' [(''href'', ''/'')] []]"
    using PathFixer_rules [of "\<lparr>protocol = ''https:'', pathname = ''/pages/ofertas.html''\<rparr>"
        "[Element ''a'' [(''href'', ''/'')] []]" "[]" False, THEN conjunct1] served
    by blast
  moreover have "getAttribute ''href'' (fix_anchors False ''a'' [(''class'', ''nav-link''), (''href'', ''/'')])
       = Some ''index.html''"
    using PathFixer_rules [of "\<lparr>protocol = ''file:'', pathname = ''/''\<rparr>" "[]"
        "[(''class'', ''nav-link''), (''href'', ''/'')]" False,
        THEN conjunct2, THEN conjunct2, THEN conjunct1, rule_format, of "''/''"]
    by (simp add: getAttribute_def)
  moreover have ext: "startsWith ''https://example.org/'' ''http''"
    by (simp add: startsWith_def)
  moreover have "fix_anchors True ''a'' [(''href'', ''https://example.org/'')]
      = [(''href'', ''https://example.org/'')]"
    using PathFixer_rules [of "\<lparr>protocol = ''file:'', pathname = ''/''\<rparr>" "[]"
        "[(''href'', ''https://example.org/'')]" True,
        THEN conjunct2, THEN conjunct2, THEN conjunct1, rule_format, of "''https://example.org/''"]
      ext
    by (simp add: getAttribute_def)
  moreover have root: "startsWith ''/assets/css/main.css'' ''/''"
    by (simp add: startsWith_def)
  moreover have "getAttribute ''href''
         (fix_resources True ''link'' [(''rel'', ''stylesheet''), (''href'', ''/assets/css/main.css'')])
       = Some ''../assets/css/main.css''"
    using PathFixer_rules [of "\<lparr>protocol = ''file:'', pathname = ''/''\<rparr>" "[]"
        "[(''rel'', ''stylesheet''), (''href'', ''/assets/css/main.css'')]" True,
        THEN conjunct2, THEN conjunct2, THEN conjunct2, THEN conjunct1, rule_format,
        of "''/assets/css/main.css''"]
      root
    by (simp add: getAttribute_def)
  moreover have "getAttribute ''src'' (fix_resources False ''script'' [(''src'', ''/assets/js/main.js'')])
       = Some ''./assets/js/main.js''"
    using PathFixer_rules [of "\<lparr>protocol = ''file:'', pathname = ''/''\<rparr>" "[]"
        "[(''src'', ''/assets/js/main.js'')]" False,
        THEN conjunct2, THEN conjunct2, THEN conjunct2, THEN conjunct2, rule_format,
        of "''/assets/js/main.js''"]
    by (simp add: getAttribute_def startsWith_def)
  ultimately show ?thesis using served by blast
qed

text \<open>
  What a link to \<^verbatim>\<open>/pages/productos.html\<close> becomes. The comments beside the two
  \<^verbatim>\<open>substring\<close> calls give \<^verbatim>\<open>pages/productos.html\<close> and \<^verbatim>\<open>productos.html\<close> as the examples;
  both offsets are one short of that.
\<close>

lemma pages_link_example:
  "PathFixer_init \<lparr>protocol = ''file:'', pathname = ''/home/ana/tienda/index.html''\<rparr>
      [Element ''a'' [(''href'', ''/pages/productos.html'')] []]
   = [Element ''a'' [(''href'', ''pagess/productos.html'')] []]"
  "PathFixer_init \<lparr>protocol = ''file:'', pathname = ''/home/ana/tienda/pages/ofertas.html''\<rparr>
      [Element ''a'' [(''href'', ''/pages/productos.html'')] []]
   = [Element ''a'' [(''href'', ''/productos.html'')] []]"
  by (simp_all add: PathFixer_init_def fixFileProtocolPaths_def fix_anchors_def fix_resources_def
      is_resource_def fix_link_def getAttribute_def newHref_def startsWith_def substring_def)

end
